theory Spec2Isabelle
  imports Complex_Main
begin

section \<open>Data model of \<^verbatim>\<open>er_model.py\<close>\<close>

text \<open>
  The four department keys of \<^verbatim>\<open>DEPARTMENTS = ("ED", "SD", "CC", "SU")\<close>. The tuple is
  iterated in this order by every loop of the module.
\<close>

datatype dept = ED | SD | CC | SU

definition DEPARTMENTS :: "dept list" where
  "DEPARTMENTS = [ED, SD, CC, SU]"

fun TOTAL_ROOMS :: "dept \<Rightarrow> int" where
  "TOTAL_ROOMS ED = 25"
| "TOTAL_ROOMS SD = 30"
| "TOTAL_ROOMS CC = 18"
| "TOTAL_ROOMS SU = 9"

fun STATE0_PATIENTS :: "dept \<Rightarrow> int" where
  "STATE0_PATIENTS ED = 16"
| "STATE0_PATIENTS SD = 22"
| "STATE0_PATIENTS CC = 12"
| "STATE0_PATIENTS SU = 4"

fun STATE0_STAFF :: "dept \<Rightarrow> int" where
  "STATE0_STAFF ED = 18"
| "STATE0_STAFF SD = 24"
| "STATE0_STAFF CC = 13"
| "STATE0_STAFF SU = 6"

text \<open>
  The unit-cost tables are dictionaries of dictionaries; the inner keys are the five
  category names below. A category that a department's dictionary does not hold is
  \<open>None\<close> (a \<^verbatim>\<open>KeyError\<close> in the source); the module only reads entries that exist.
\<close>

datatype cost_key = K_diversion | K_waiting | K_extra_staff | K_arrivals_waiting | K_requests_waiting

fun FINANCIAL :: "dept \<Rightarrow> cost_key \<rightharpoonup> int" where
  "FINANCIAL ED = [K_diversion \<mapsto> 5000, K_waiting \<mapsto> 150, K_extra_staff \<mapsto> 40]"
| "FINANCIAL SD = [K_arrivals_waiting \<mapsto> 3750, K_extra_staff \<mapsto> 40]"
| "FINANCIAL CC = [K_arrivals_waiting \<mapsto> 3750, K_extra_staff \<mapsto> 40]"
| "FINANCIAL SU = [K_arrivals_waiting \<mapsto> 3750, K_extra_staff \<mapsto> 40]"

fun QUALITY :: "dept \<Rightarrow> cost_key \<rightharpoonup> int" where
  "QUALITY ED = [K_diversion \<mapsto> 200, K_waiting \<mapsto> 20, K_extra_staff \<mapsto> 5]"
| "QUALITY SD = [K_arrivals_waiting \<mapsto> 20, K_requests_waiting \<mapsto> 20, K_extra_staff \<mapsto> 5]"
| "QUALITY CC = [K_arrivals_waiting \<mapsto> 20, K_requests_waiting \<mapsto> 20, K_extra_staff \<mapsto> 5]"
| "QUALITY SU = [K_arrivals_waiting \<mapsto> 20, K_requests_waiting \<mapsto> 20, K_extra_staff \<mapsto> 5]"

record DepartmentState =
  patients :: int
  staff :: int
  ext_waiting :: int
  ed_walkin_waiting :: int
  ed_ambulance_waiting :: int
  req_waiting_mature :: int
  req_waiting_new :: int

text \<open>
  The three per-department dictionaries of \<^verbatim>\<open>Totals\<close> are created with the keys
  SD, CC and SU and are only ever read and written at these keys; they are functions on
  \<^typ>\<open>dept\<close> whose value at \<^const>\<open>ED\<close> is never used. Likewise \<^verbatim>\<open>GameState.depts\<close>
  is created with all four keys and no key is added or removed.
\<close>

record Totals =
  ed_diversions :: int
  ed_waiting :: int
  ed_extra_staff :: int
  dep_arrivals_waiting :: "dept \<Rightarrow> int"
  dep_requests_waiting :: "dept \<Rightarrow> int"
  dep_extra_staff :: "dept \<Rightarrow> int"
  throughput_admitted :: int
  discharged_out :: int

definition Totals0 :: Totals where
  "Totals0 = \<lparr> ed_diversions = 0, ed_waiting = 0, ed_extra_staff = 0,
     dep_arrivals_waiting = (\<lambda>d. 0), dep_requests_waiting = (\<lambda>d. 0),
     dep_extra_staff = (\<lambda>d. 0), throughput_admitted = 0, discharged_out = 0 \<rparr>"

definition financial_cost :: "Totals \<Rightarrow> int" where
  "financial_cost t =
     (let ed = ed_diversions t * the (FINANCIAL ED K_diversion)
             + ed_waiting t * the (FINANCIAL ED K_waiting)
             + ed_extra_staff t * the (FINANCIAL ED K_extra_staff);
          others = fold (\<lambda>d others.
             others + dep_arrivals_waiting t d * the (FINANCIAL d K_arrivals_waiting)
                    + dep_extra_staff t d * the (FINANCIAL d K_extra_staff)) [SD, CC, SU] 0
      in ed + others)"

definition quality_penalty :: "Totals \<Rightarrow> int" where
  "quality_penalty t =
     (let ed = ed_diversions t * the (QUALITY ED K_diversion)
             + ed_waiting t * the (QUALITY ED K_waiting)
             + ed_extra_staff t * the (QUALITY ED K_extra_staff);
          others = fold (\<lambda>d others.
             others + dep_arrivals_waiting t d * the (QUALITY d K_arrivals_waiting)
                    + dep_requests_waiting t d * the (QUALITY d K_requests_waiting)
                    + dep_extra_staff t d * the (QUALITY d K_extra_staff)) [SD, CC, SU] 0
      in ed + others)"

record GameState =
  hour :: int
  depts :: "dept \<Rightarrow> DepartmentState"
  totals :: Totals

definition GameState0 :: GameState where
  "GameState0 = \<lparr> hour = 1,
     depts = (\<lambda>d. \<lparr> patients = STATE0_PATIENTS d, staff = STATE0_STAFF d, ext_waiting = 0,
                     ed_walkin_waiting = 0, ed_ambulance_waiting = 0,
                     req_waiting_mature = 0, req_waiting_new = 0 \<rparr>),
     totals = Totals0 \<rparr>"

text \<open>A routing target is another department or \<^verbatim>\<open>"OUT"\<close> (discharge).\<close>

datatype target = OUT | Dept dept

record HourInput =
  external_arrivals :: "dept \<rightharpoonup> int"
  ed_walkin_arrivals :: int
  ed_ambulance_arrivals :: int
  staff_delta :: "dept \<rightharpoonup> int"
  ready_to_exit :: "dept \<rightharpoonup> int"
  destinations :: "(dept \<times> target) \<rightharpoonup> int"

text \<open>\<^verbatim>\<open>dict.get(key, default)\<close>.\<close>

definition dict_get :: "('k \<rightharpoonup> 'v) \<Rightarrow> 'k \<Rightarrow> 'v \<Rightarrow> 'v" where
  "dict_get m k dflt = (case m k of None \<Rightarrow> dflt | Some v \<Rightarrow> v)"

definition clamp_non_negative :: "int \<Rightarrow> int" where
  "clamp_non_negative v = max 0 v"

section \<open>State transition\<close>

text \<open>
  The inner loop of \<^verbatim>\<open>_apply_departures_and_requests\<close> over the targets \<open>t\<close> of one
  source department \<open>d\<close>; it threads the department table and \<^verbatim>\<open>remaining\<close>.
\<close>

fun route_targets ::
  "HourInput \<Rightarrow> dept \<Rightarrow> dept list \<Rightarrow> (dept \<Rightarrow> DepartmentState) \<times> int
     \<Rightarrow> (dept \<Rightarrow> DepartmentState) \<times> int" where
  "route_targets h d [] (ds, remaining) = (ds, remaining)"
| "route_targets h d (t # ts) (ds, remaining) =
     (if t = d \<or> remaining \<le> 0 then route_targets h d ts (ds, remaining)
      else let req = min (clamp_non_negative (dict_get (destinations h) (d, Dept t) 0)) remaining
           in route_targets h d ts
                (ds(t := (ds t)\<lparr>req_waiting_new := req_waiting_new (ds t) + req\<rparr>),
                 remaining - req))"

text \<open>One iteration of the outer loop, for source department \<open>d\<close>.\<close>

definition depart_one ::
  "HourInput \<Rightarrow> dept \<Rightarrow> (dept \<Rightarrow> DepartmentState) \<times> (dept \<Rightarrow> int)
     \<Rightarrow> (dept \<Rightarrow> DepartmentState) \<times> (dept \<Rightarrow> int)" where
  "depart_one h d = (\<lambda>(ds, discharged).
     (let requested = clamp_non_negative (dict_get (ready_to_exit h) d 0);
          actual_departures = min requested (patients (ds d));
          ds1 = ds(d := (ds d)\<lparr>patients := patients (ds d) - actual_departures\<rparr>);
          remaining = actual_departures;
          out_count = min (clamp_non_negative (dict_get (destinations h) (d, OUT) 0)) remaining;
          remaining = remaining - out_count;
          discharged = discharged(d := out_count);
          (ds2, remaining) = route_targets h d DEPARTMENTS (ds1, remaining);
          discharged = (if remaining > 0 then discharged(d := discharged d + remaining)
                        else discharged)
      in (ds2, discharged)))"

definition apply_departures_and_requests ::
  "GameState \<Rightarrow> HourInput \<Rightarrow> GameState \<times> (dept \<Rightarrow> int)" where
  "apply_departures_and_requests state h =
     (let (ds, discharged) = fold (depart_one h) DEPARTMENTS (depts state, (\<lambda>d. 0))
      in (state\<lparr>depts := ds\<rparr>, discharged))"

definition roll_request_age :: "GameState \<Rightarrow> GameState" where
  "roll_request_age state =
     state\<lparr>depts := fold (\<lambda>d ds.
        ds(d := (ds d)\<lparr>req_waiting_mature := req_waiting_mature (ds d) + req_waiting_new (ds d),
                        req_waiting_new := 0\<rparr>)) DEPARTMENTS (depts state)\<rparr>"

text \<open>Step 3 of \<^verbatim>\<open>optimize_hour\<close>: external arrivals and staff shocks.\<close>

definition arrivals_and_staff :: "GameState \<Rightarrow> HourInput \<Rightarrow> GameState" where
  "arrivals_and_staff state h =
     state\<lparr>depts := fold (\<lambda>d ds.
        (let dept = ds d;
             dept = (if d = ED
                     then dept\<lparr>ed_walkin_waiting :=
                                  ed_walkin_waiting dept + clamp_non_negative (ed_walkin_arrivals h),
                               ed_ambulance_waiting :=
                                  ed_ambulance_waiting dept
                                    + clamp_non_negative (ed_ambulance_arrivals h)\<rparr>
                     else dept\<lparr>ext_waiting :=
                                  ext_waiting dept
                                    + clamp_non_negative (dict_get (external_arrivals h) d 0)\<rparr>);
             dept = dept\<lparr>staff := clamp_non_negative (staff dept + dict_get (staff_delta h) d 0)\<rparr>
         in ds(d := dept))) DEPARTMENTS (depts state)\<rparr>"

text \<open>Steps 1 to 3 together: everything \<^verbatim>\<open>optimize_hour\<close> does before it builds the model.\<close>

definition state_transition :: "GameState \<Rightarrow> HourInput \<Rightarrow> GameState \<times> (dept \<Rightarrow> int)" where
  "state_transition state h =
     (let state1 = roll_request_age state;
          (state2, discharged_out_by_dept) = apply_departures_and_requests state1 h
      in (arrivals_and_staff state2 h, discharged_out_by_dept))"

section \<open>The hourly integer program\<close>

text \<open>
  The decision variables of the model, all declared with \<^verbatim>\<open>lowBound=0, cat="Integer"\<close>.
  The solver is the external library; it reports values as floating-point numbers, here
  rationals, which the module rounds with \<^verbatim>\<open>int(round(...))\<close>.
\<close>

datatype var =
    Admit_ext dept
  | Admit_ed_walkin
  | Admit_ed_ambulance
  | Admit_req dept
  | Extra_staff dept
  | Divert_ed

type_synonym valuation = "var \<Rightarrow> rat"

record LpProblem =
  variables :: "var list"
  constraints :: "(valuation \<Rightarrow> bool) list"
  objective :: "valuation \<Rightarrow> rat"

datatype LpStatus =
  LpStatusNotSolved | LpStatusOptimal | LpStatusInfeasible | LpStatusUnbounded | LpStatusUndefined

text \<open>The exception raised for a non-optimal status carries the hour and the status.\<close>

datatype error = RuntimeError int LpStatus

type_synonym solver = "LpProblem \<Rightarrow> LpStatus \<times> valuation"

text \<open>Python's \<^verbatim>\<open>round\<close> on a float: to the nearest integer, ties to the even one.\<close>

definition py_round :: "rat \<Rightarrow> int" where
  "py_round q =
     (let f = \<lfloor>q\<rfloor>; r = q - of_int f
      in if r < 1 / 2 then f else if 1 / 2 < r then f + 1 else if even f then f else f + 1)"

definition ext_admit_term :: "dept \<Rightarrow> valuation \<Rightarrow> rat" where
  "ext_admit_term d v = (if d = ED then v Admit_ed_walkin + v Admit_ed_ambulance else v (Admit_ext d))"

definition patients_end :: "GameState \<Rightarrow> dept \<Rightarrow> valuation \<Rightarrow> rat" where
  "patients_end state d v = of_int (patients (depts state d)) + ext_admit_term d v + v (Admit_req d)"

definition ext_wait_end :: "GameState \<Rightarrow> dept \<Rightarrow> valuation \<Rightarrow> rat" where
  "ext_wait_end state d v = of_int (ext_waiting (depts state d)) - v (Admit_ext d)"

definition ed_walkin_wait_end :: "GameState \<Rightarrow> valuation \<Rightarrow> rat" where
  "ed_walkin_wait_end state v = of_int (ed_walkin_waiting (depts state ED)) - v Admit_ed_walkin"

definition ed_ambulance_wait_end :: "GameState \<Rightarrow> valuation \<Rightarrow> rat" where
  "ed_ambulance_wait_end state v =
     of_int (ed_ambulance_waiting (depts state ED)) - v Admit_ed_ambulance - v Divert_ed"

definition req_wait_end :: "GameState \<Rightarrow> dept \<Rightarrow> valuation \<Rightarrow> rat" where
  "req_wait_end state d v =
     of_int (req_waiting_mature (depts state d)) - v (Admit_req d)
       + of_int (req_waiting_new (depts state d))"

definition financial :: "GameState \<Rightarrow> valuation \<Rightarrow> rat" where
  "financial state v =
     fold (\<lambda>d financial.
        financial + of_int (the (FINANCIAL d K_arrivals_waiting)) * ext_wait_end state d v
                  + of_int (the (FINANCIAL d K_extra_staff)) * v (Extra_staff d))
       [SD, CC, SU]
       (of_int (the (FINANCIAL ED K_diversion)) * v Divert_ed
        + of_int (the (FINANCIAL ED K_waiting))
            * (ed_walkin_wait_end state v + ed_ambulance_wait_end state v + req_wait_end state ED v)
        + of_int (the (FINANCIAL ED K_extra_staff)) * v (Extra_staff ED))"

definition quality :: "GameState \<Rightarrow> valuation \<Rightarrow> rat" where
  "quality state v =
     fold (\<lambda>d quality.
        quality + of_int (the (QUALITY d K_arrivals_waiting)) * ext_wait_end state d v
                + of_int (the (QUALITY d K_requests_waiting)) * req_wait_end state d v
                + of_int (the (QUALITY d K_extra_staff)) * v (Extra_staff d))
       [SD, CC, SU]
       (of_int (the (QUALITY ED K_diversion)) * v Divert_ed
        + of_int (the (QUALITY ED K_waiting))
            * (ed_walkin_wait_end state v + ed_ambulance_wait_end state v + req_wait_end state ED v)
        + of_int (the (QUALITY ED K_extra_staff)) * v (Extra_staff ED))"

definition throughput :: "valuation \<Rightarrow> rat" where
  "throughput v =
     v Admit_ed_walkin + v Admit_ed_ambulance
       + sum_list (map (\<lambda>d. v (Admit_ext d)) [SD, CC, SU])
       + sum_list (map (\<lambda>d. v (Admit_req d)) DEPARTMENTS)"

text \<open>
  Step 4 up to the call of the solver: the model built from the state after the
  transition. The constraints are listed in the order the source adds them.
\<close>

definition build_problem :: "GameState \<Rightarrow> rat \<Rightarrow> rat \<Rightarrow> LpProblem" where
  "build_problem state quality_weight flow_reward =
     \<lparr> variables =
         map Admit_ext DEPARTMENTS @ [Admit_ed_walkin, Admit_ed_ambulance]
           @ map Admit_req DEPARTMENTS @ map Extra_staff DEPARTMENTS @ [Divert_ed],
       constraints =
         concat (map (\<lambda>d.
            [if d \<noteq> ED then (\<lambda>v. v (Admit_ext d) \<le> of_int (ext_waiting (depts state d)))
             else (\<lambda>v. v (Admit_ext d) = 0),
             \<lambda>v. v (Admit_req d) \<le> of_int (req_waiting_mature (depts state d))]) DEPARTMENTS)
         @ [\<lambda>v. v Admit_ed_walkin \<le> of_int (ed_walkin_waiting (depts state ED)),
            \<lambda>v. v Admit_ed_ambulance \<le> of_int (ed_ambulance_waiting (depts state ED)),
            \<lambda>v. v Divert_ed \<le> of_int (ed_ambulance_waiting (depts state ED)),
            \<lambda>v. v Admit_ed_ambulance + v Divert_ed \<le> of_int (ed_ambulance_waiting (depts state ED))]
         @ concat (map (\<lambda>d.
            [\<lambda>v. patients_end state d v \<le> of_int (TOTAL_ROOMS d),
             \<lambda>v. patients_end state d v \<le> of_int (staff (depts state d)) + v (Extra_staff d)])
            DEPARTMENTS),
       objective = (\<lambda>v. financial state v + quality_weight * quality state v
                          - flow_reward * throughput v) \<rparr>"

section \<open>Applying the decision\<close>

text \<open>
  A decision record per department; the three Emergency-only keys are absent (\<open>None\<close>)
  for the other departments.
\<close>

record decision =
  admit_external :: int
  admit_requests :: int
  call_extra_staff :: int
  admit_walkins :: "int option"
  admit_ambulance :: "int option"
  divert_ambulances :: "int option"

record objective_info =
  financial_total :: rat
  quality_total :: rat
  admitted_this_hour :: rat
  discharged_out_this_hour :: rat
  objective_value :: rat

text \<open>One iteration of the loop of step 5, for department \<open>d\<close>.\<close>

definition apply_dept ::
  "valuation \<Rightarrow> dept \<Rightarrow> (dept \<Rightarrow> DepartmentState) \<times> (dept \<Rightarrow> decision)
     \<Rightarrow> (dept \<Rightarrow> DepartmentState) \<times> (dept \<Rightarrow> decision)" where
  "apply_dept v d = (\<lambda>(ds, decisions).
     (let ae = (if d = ED then 0 else py_round (v (Admit_ext d)));
          ar = py_round (v (Admit_req d));
          es = py_round (v (Extra_staff d));
          dept = ds d;
          ae_walkin = py_round (v Admit_ed_walkin);
          ae_ambulance = py_round (v Admit_ed_ambulance);
          ae = (if d = ED then ae_walkin + ae_ambulance else ae);
          dept = (if d = ED
                  then dept\<lparr>patients := patients dept + ae_walkin + ae_ambulance + ar,
                            ed_walkin_waiting := ed_walkin_waiting dept - ae_walkin,
                            ed_ambulance_waiting := ed_ambulance_waiting dept - ae_ambulance\<rparr>
                  else dept\<lparr>patients := patients dept + ae + ar,
                            ext_waiting := ext_waiting dept - ae\<rparr>);
          dept = dept\<lparr>req_waiting_mature := req_waiting_mature dept - ar\<rparr>;
          dept = dept\<lparr>staff := staff dept + es\<rparr>;
          dec = \<lparr> admit_external = ae, admit_requests = ar, call_extra_staff = es,
                  admit_walkins = (if d = ED then Some ae_walkin else None),
                  admit_ambulance = (if d = ED then Some ae_ambulance else None),
                  divert_ambulances = None \<rparr>
      in (ds(d := dept), decisions(d := dec))))"

text \<open>Step 6: the cumulative totals, from the state after the decision is applied.\<close>

definition update_totals ::
  "(dept \<Rightarrow> DepartmentState) \<Rightarrow> (dept \<Rightarrow> decision) \<Rightarrow> int \<Rightarrow> (dept \<Rightarrow> int) \<Rightarrow> Totals \<Rightarrow> Totals" where
  "update_totals ds decisions ed_div discharged_out_by_dept t =
     (let t = t\<lparr>ed_diversions := ed_diversions t + ed_div\<rparr>;
          t = t\<lparr>ed_waiting := ed_waiting t
                  + (ed_walkin_waiting (ds ED) + ed_ambulance_waiting (ds ED)
                     + req_waiting_mature (ds ED))\<rparr>;
          t = t\<lparr>ed_extra_staff := ed_extra_staff t + call_extra_staff (decisions ED)\<rparr>;
          t = fold (\<lambda>d t.
                t\<lparr>dep_arrivals_waiting :=
                     (dep_arrivals_waiting t)(d := dep_arrivals_waiting t d + ext_waiting (ds d)),
                  dep_requests_waiting :=
                     (dep_requests_waiting t)(d := dep_requests_waiting t d
                        + (req_waiting_mature (ds d) + req_waiting_new (ds d))),
                  dep_extra_staff :=
                     (dep_extra_staff t)(d := dep_extra_staff t d + call_extra_staff (decisions d))\<rparr>)
                [SD, CC, SU] t;
          admitted_total =
            sum_list (map (\<lambda>d. admit_external (decisions d) + admit_requests (decisions d))
                        DEPARTMENTS);
          discharged_out_total = sum_list (map discharged_out_by_dept DEPARTMENTS)
      in t\<lparr>throughput_admitted := throughput_admitted t + admitted_total,
            discharged_out := discharged_out t + discharged_out_total\<rparr>)"

text \<open>
  \<^verbatim>\<open>optimize_hour\<close>. The source mutates the \<^verbatim>\<open>GameState\<close> object it is given, so the
  state the caller holds after the call is part of the result whether the call returns or
  raises: the first component is that state, the second the exception or the returned
  decisions and metrics. The solver is a parameter.
\<close>

definition no_decision :: decision where
  "no_decision = \<lparr> admit_external = 0, admit_requests = 0, call_extra_staff = 0,
     admit_walkins = None, admit_ambulance = None, divert_ambulances = None \<rparr>"

definition optimize_hour ::
  "solver \<Rightarrow> GameState \<Rightarrow> HourInput \<Rightarrow> rat \<Rightarrow> rat
     \<Rightarrow> GameState \<times> (error + (dept \<Rightarrow> decision) \<times> objective_info)" where
  "optimize_hour solve state hour_input quality_weight flow_reward =
     (let (state, discharged_out_by_dept) = state_transition state hour_input;
          prob = build_problem state quality_weight flow_reward;
          (status, v) = solve prob
      in if status \<noteq> LpStatusOptimal then (state, Inl (RuntimeError (hour state) status))
         else
           (let (ds, decisions) = fold (apply_dept v) DEPARTMENTS (depts state, (\<lambda>d. no_decision));
                ed_div = py_round (v Divert_ed);
                ds = ds(ED := (ds ED)\<lparr>ed_ambulance_waiting :=
                                          max 0 (ed_ambulance_waiting (ds ED) - ed_div)\<rparr>);
                decisions = decisions(ED := (decisions ED)\<lparr>divert_ambulances := Some ed_div\<rparr>);
                t = update_totals ds decisions ed_div discharged_out_by_dept (totals state);
                admitted_total =
                  sum_list (map (\<lambda>d. admit_external (decisions d) + admit_requests (decisions d))
                              DEPARTMENTS);
                discharged_out_total = sum_list (map discharged_out_by_dept DEPARTMENTS);
                state = state\<lparr>depts := ds, totals := t, hour := hour state + 1\<rparr>;
                info = \<lparr> financial_total = of_int (financial_cost (totals state)),
                         quality_total = of_int (quality_penalty (totals state)),
                         admitted_this_hour = of_int admitted_total,
                         discharged_out_this_hour = of_int discharged_out_total,
                         objective_value = objective prob v \<rparr>
            in (state, Inr (decisions, info))))"

section \<open>The transition as the specification words it\<close>

text \<open>
  The definitions of this section follow the specification's description of departures and
  routing, not the source: the departures of a department are the minimum of its
  (non-negative) ready-to-exit count and its patients; its destination entries are consumed
  discharge first, then each other department in the fixed order, each clipped to the
  departures still unallocated; what is left over is discharged. The argument \<open>p\<close> is the
  department's patient count before the step.
\<close>

fun spec_clip :: "(dept \<Rightarrow> int) \<Rightarrow> int \<Rightarrow> dept list \<Rightarrow> dept \<Rightarrow> int" where
  "spec_clip c r [] x = 0"
| "spec_clip c r (t # ts) x =
     (let a = min (c t) r in (if t = x then a else 0) + spec_clip c (r - a) ts x)"

fun spec_alloc :: "(dept \<Rightarrow> int) \<Rightarrow> int \<Rightarrow> dept list \<Rightarrow> int" where
  "spec_alloc c r [] = 0"
| "spec_alloc c r (t # ts) = (let a = min (c t) r in a + spec_alloc c (r - a) ts)"

definition spec_dest_count :: "HourInput \<Rightarrow> dept \<Rightarrow> dept \<Rightarrow> int" where
  "spec_dest_count h d t = max 0 (dict_get (destinations h) (d, Dept t) 0)"

definition other_departments :: "dept \<Rightarrow> dept list" where
  "other_departments d = filter (\<lambda>t. t \<noteq> d) DEPARTMENTS"

definition spec_actual_departures :: "HourInput \<Rightarrow> dept \<Rightarrow> int \<Rightarrow> int" where
  "spec_actual_departures h d p = min (max 0 (dict_get (ready_to_exit h) d 0)) p"

definition spec_out_count :: "HourInput \<Rightarrow> dept \<Rightarrow> int \<Rightarrow> int" where
  "spec_out_count h d p = min (max 0 (dict_get (destinations h) (d, OUT) 0)) (spec_actual_departures h d p)"

definition spec_routed :: "HourInput \<Rightarrow> dept \<Rightarrow> int \<Rightarrow> dept \<Rightarrow> int" where
  "spec_routed h d p t =
     spec_clip (spec_dest_count h d) (spec_actual_departures h d p - spec_out_count h d p) (other_departments d) t"

definition spec_discharged :: "HourInput \<Rightarrow> dept \<Rightarrow> int \<Rightarrow> int" where
  "spec_discharged h d p =
     spec_out_count h d p + (spec_actual_departures h d p - spec_out_count h d p - (\<Sum>t\<leftarrow>DEPARTMENTS. spec_routed h d p t))"

definition created_requests :: "GameState \<Rightarrow> HourInput \<Rightarrow> dept \<Rightarrow> int" where
  "created_requests s h t = (\<Sum>d\<leftarrow>DEPARTMENTS. spec_routed h d (patients (depts s d)) t)"

section \<open>Feasible points and the contract of the solver\<close>

text \<open>
  An integer point is feasible for a problem when every variable respects its lower bound
  0 and every constraint holds. The library's solver is outside the program; what the
  program relies on is that the values reported with status optimal are, rounded to the
  nearest integer, a feasible point of the problem that was solved.
\<close>

definition feasible :: "LpProblem \<Rightarrow> (var \<Rightarrow> int) \<Rightarrow> bool" where
  "feasible p z =
     (list_all (\<lambda>x. 0 \<le> z x) (variables p) \<and> list_all (\<lambda>c. c (\<lambda>x. of_int (z x))) (constraints p))"

definition rounded :: "valuation \<Rightarrow> var \<Rightarrow> int" where
  "rounded v x = py_round (v x)"

definition solver_contract :: "solver \<Rightarrow> LpProblem \<Rightarrow> bool" where
  "solver_contract solve p =
     (fst (solve p) = LpStatusOptimal \<longrightarrow> feasible p (rounded (snd (solve p))))"

text \<open>
  Closed forms of steps 5 to 7 in terms of the rounded values \<open>z\<close>, used to state what a
  successful call leaves behind.
\<close>

definition post_depts :: "(dept \<Rightarrow> DepartmentState) \<Rightarrow> (var \<Rightarrow> int) \<Rightarrow> dept \<Rightarrow> DepartmentState" where
  "post_depts ds z d =
     (ds d)\<lparr>patients := patients (ds d)
                 + (if d = ED then z Admit_ed_walkin + z Admit_ed_ambulance else z (Admit_ext d))
                 + z (Admit_req d),
            staff := staff (ds d) + z (Extra_staff d),
            ext_waiting := ext_waiting (ds d) - (if d = ED then 0 else z (Admit_ext d)),
            ed_walkin_waiting := ed_walkin_waiting (ds d) - (if d = ED then z Admit_ed_walkin else 0),
            ed_ambulance_waiting :=
              (if d = ED then max 0 (ed_ambulance_waiting (ds d) - z Admit_ed_ambulance - z Divert_ed)
               else ed_ambulance_waiting (ds d)),
            req_waiting_mature := req_waiting_mature (ds d) - z (Admit_req d)\<rparr>"

definition post_decisions :: "(var \<Rightarrow> int) \<Rightarrow> dept \<Rightarrow> decision" where
  "post_decisions z d =
     \<lparr> admit_external = (if d = ED then z Admit_ed_walkin + z Admit_ed_ambulance else z (Admit_ext d)),
       admit_requests = z (Admit_req d),
       call_extra_staff = z (Extra_staff d),
       admit_walkins = (if d = ED then Some (z Admit_ed_walkin) else None),
       admit_ambulance = (if d = ED then Some (z Admit_ed_ambulance) else None),
       divert_ambulances = (if d = ED then Some (z Divert_ed) else None) \<rparr>"

text \<open>The hour input with every absent dictionary entry written out as 0.\<close>

definition with_zero_defaults :: "HourInput \<Rightarrow> HourInput" where
  "with_zero_defaults h =
     h\<lparr>external_arrivals := (\<lambda>d. Some (dict_get (external_arrivals h) d 0)),
       staff_delta := (\<lambda>d. Some (dict_get (staff_delta h) d 0)),
       ready_to_exit := (\<lambda>d. Some (dict_get (ready_to_exit h) d 0)),
       destinations := (\<lambda>k. Some (dict_get (destinations h) k 0))\<rparr>"

text \<open>
  An integer point is optimal when it is feasible and no feasible point has a smaller
  objective value (the model's sense is minimisation).
\<close>

definition is_optimal :: "LpProblem \<Rightarrow> (var \<Rightarrow> int) \<Rightarrow> bool" where
  "is_optimal p z =
     (feasible p z \<and>
      (\<forall>z'. feasible p z' \<longrightarrow> objective p (\<lambda>x. of_int (z x)) \<le> objective p (\<lambda>x. of_int (z' x))))"

section \<open>Example states, hour inputs and solver runs\<close>

text \<open>
  A run of the solver that ends with status unbounded, and an hour input with three
  walk-in arrivals and two discharges from Step Down.
\<close>

definition solver_unbounded :: solver where
  "solver_unbounded p = (LpStatusUnbounded, (\<lambda>x. 0))"

definition hour_input_walkins :: HourInput where
  "hour_input_walkins =
     \<lparr> external_arrivals = Map.empty, ed_walkin_arrivals = 3, ed_ambulance_arrivals = 0,
       staff_delta = Map.empty, ready_to_exit = [SD \<mapsto> 2],
       destinations = [(SD, OUT) \<mapsto> 2] \<rparr>"

text \<open>
  A run of the solver that ends with status optimal. The values are the floating-point
  numbers a solver reports, one of them a hair below the integer it stands for.
\<close>

fun example_values :: valuation where
  "example_values Admit_ed_walkin = 3"
| "example_values Admit_ed_ambulance = 4999999 / 1000000"
| "example_values Divert_ed = 1"
| "example_values (Admit_ext d) = (if d = SD then 9 else 0)"
| "example_values (Admit_req d) = (if d = SD then 1 else 0)"
| "example_values (Extra_staff d) = (if d = ED then 6 else if d = SD then 6 else 0)"

definition solver_example :: solver where
  "solver_example p = (LpStatusOptimal, example_values)"

text \<open>
  A state one hour into a game, with one transfer request to Step Down created in the
  first hour, and a busy hour input.
\<close>

definition state_example :: GameState where
  "state_example = GameState0\<lparr>hour := 2,
     depts := (depts GameState0)(SD := (depts GameState0 SD)\<lparr>req_waiting_new := 1\<rparr>)\<rparr>"

definition hour_input_busy :: HourInput where
  "hour_input_busy =
     \<lparr> external_arrivals = [SD \<mapsto> 10], ed_walkin_arrivals = 3, ed_ambulance_arrivals = 6,
       staff_delta = [CC \<mapsto> - 1], ready_to_exit = [SD \<mapsto> 2, CC \<mapsto> 3],
       destinations = [(SD, OUT) \<mapsto> 2, (CC, OUT) \<mapsto> 1, (CC, Dept SD) \<mapsto> 2] \<rparr>"

text \<open>
  A sequence of successful calls, as the application makes them: the state one call leaves
  is the state the next call is given, each call with its own hour input and weights. The
  result is the list of the states after each call, or \<open>None\<close> when a call raises.
\<close>

fun play :: "solver \<Rightarrow> GameState \<Rightarrow> (HourInput \<times> rat \<times> rat) list \<Rightarrow> GameState list option" where
  "play solve s [] = Some []"
| "play solve s ((h, qw, fr) # rest) =
     (case optimize_hour solve s h qw fr of
        (s', Inr r) \<Rightarrow> map_option ((#) s') (play solve s' rest)
      | (s', Inl e) \<Rightarrow> None)"

text \<open>
  A solver that tries a list of candidate values in order and reports the first whose
  rounding is feasible, or infeasibility when none is.
\<close>

fun solver_pool :: "valuation list \<Rightarrow> solver" where
  "solver_pool [] p = (LpStatusInfeasible, (\<lambda>x. 0))"
| "solver_pool (v # vs) p = (if feasible p (rounded v) then (LpStatusOptimal, v) else solver_pool vs p)"

text \<open>The solver of the example run: the example values first, then admitting nobody.\<close>

definition solver_two :: solver where
  "solver_two = solver_pool [example_values, (\<lambda>x. 0)]"

definition inputs_two :: "(HourInput \<times> rat \<times> rat) list" where
  "inputs_two = [(hour_input_busy, 1, 300), (hour_input_walkins, 1, 300)]"

text \<open>
  The staff-bound scenario, reached from the initial state in one hour: four patients of
  Step Down leave, four of its staff are taken away and ten arrivals come in, which leaves
  Step Down with 18 patients, 20 staff, 30 rooms and 10 arrivals waiting. The point
  \<open>admit_all\<close> admits the ten and calls eight extra staff; \<open>admit_two\<close> admits two and calls
  nobody.
\<close>

definition hour_input_staff_bound :: HourInput where
  "hour_input_staff_bound =
     \<lparr> external_arrivals = [SD \<mapsto> 10], ed_walkin_arrivals = 0, ed_ambulance_arrivals = 0,
       staff_delta = [SD \<mapsto> - 4], ready_to_exit = [SD \<mapsto> 4],
       destinations = [(SD, OUT) \<mapsto> 4] \<rparr>"

definition problem_staff_bound :: LpProblem where
  "problem_staff_bound =
     build_problem (fst (state_transition GameState0 hour_input_staff_bound)) 1 300"

fun admit_all :: "var \<Rightarrow> int" where
  "admit_all (Admit_ext d) = (if d = SD then 10 else 0)"
| "admit_all (Extra_staff d) = (if d = SD then 8 else 0)"
| "admit_all x = 0"

fun admit_two :: "var \<Rightarrow> int" where
  "admit_two (Admit_ext d) = (if d = SD then 2 else 0)"
| "admit_two x = 0"

section \<open>The input collector of \<^verbatim>\<open>app.py\<close>\<close>

text \<open>
  \<^verbatim>\<open>_collect_hour_input\<close> reads one number per input widget; the record below holds what
  the operator entered, by widget key: \<^verbatim>\<open>arr_<d>\<close>, \<^verbatim>\<open>arr_ED_walkin\<close>,
  \<^verbatim>\<open>arr_ED_ambulance\<close>, \<^verbatim>\<open>staff_delta_<d>\<close>, \<^verbatim>\<open>ready_<d>\<close> and \<^verbatim>\<open>dest_<d>_<t>\<close>.
  The page layout and the rendering are left out. An error message is kept as its three
  variable parts: the department, the split total and the ready-to-exit count.
\<close>

record widgets =
  w_arr :: "dept \<Rightarrow> int"
  w_arr_ED_walkin :: int
  w_arr_ED_ambulance :: int
  w_staff_delta :: "dept \<Rightarrow> int"
  w_ready :: "dept \<Rightarrow> int"
  w_dest :: "dept \<Rightarrow> target \<Rightarrow> int"

datatype validation_error = SplitMismatch dept int int

definition split_targets :: "dept \<Rightarrow> target list" where
  "split_targets d = OUT # map Dept (filter (\<lambda>t. t \<noteq> d) DEPARTMENTS)"

text \<open>The part of one iteration of the loop that checks and records the destination split.\<close>

definition collect_dept ::
  "widgets \<Rightarrow> dept \<Rightarrow> validation_error list \<times> ((dept \<times> target) \<rightharpoonup> int)
     \<Rightarrow> validation_error list \<times> ((dept \<times> target) \<rightharpoonup> int)" where
  "collect_dept w d = (\<lambda>(errors, destinations).
     if w_ready w d > 0
     then (let split_sum = sum_list (map (w_dest w d) (split_targets d));
               errors = (if split_sum \<noteq> w_ready w d
                         then errors @ [SplitMismatch d split_sum (w_ready w d)] else errors);
               destinations = fold (\<lambda>t m. m((d, t) \<mapsto> w_dest w d t)) (split_targets d) destinations
           in (errors, destinations))
     else (errors, destinations))"

definition collect_hour_input :: "widgets \<Rightarrow> HourInput option \<times> validation_error list" where
  "collect_hour_input w =
     (let (errors, destinations) = fold (collect_dept w) DEPARTMENTS ([], Map.empty)
      in if errors \<noteq> [] then (None, errors)
         else (Some \<lparr> external_arrivals = (\<lambda>d. Some (if d = ED then 0 else w_arr w d)),
                      ed_walkin_arrivals = w_arr_ED_walkin w,
                      ed_ambulance_arrivals = w_arr_ED_ambulance w,
                      staff_delta = (\<lambda>d. Some (w_staff_delta w d)),
                      ready_to_exit = (\<lambda>d. Some (w_ready w d)),
                      destinations = destinations \<rparr>, []))"

text \<open>
  What \<^verbatim>\<open>main\<close> does when the operator presses the optimize button: the button is
  disabled, and \<^verbatim>\<open>optimize_hour\<close> not called, when the collector returned no hour input.
  The result is the session's state afterwards, the validation errors shown, and the
  outcome of \<^verbatim>\<open>optimize_hour\<close> when it was called.
\<close>

definition optimize_pressed ::
  "solver \<Rightarrow> GameState \<Rightarrow> widgets \<Rightarrow> rat \<Rightarrow> rat
     \<Rightarrow> GameState \<times> validation_error list
        \<times> (error + (dept \<Rightarrow> decision) \<times> objective_info) option" where
  "optimize_pressed solve state w quality_weight flow_reward =
     (case collect_hour_input w of
        (None, errors) \<Rightarrow> (state, errors, None)
      | (Some hour_input, errors) \<Rightarrow>
          (case optimize_hour solve state hour_input quality_weight flow_reward of
             (state', out) \<Rightarrow> (state', errors, Some out)))"

text \<open>
  An hour input whose destination split for Step Down (empty, total 0) differs from its
  ready-to-exit count 2, and a solver that admits nobody.
\<close>

definition hour_input_mismatch :: HourInput where
  "hour_input_mismatch =
     \<lparr> external_arrivals = Map.empty, ed_walkin_arrivals = 0, ed_ambulance_arrivals = 0,
       staff_delta = Map.empty, ready_to_exit = [SD \<mapsto> 2], destinations = Map.empty \<rparr>"

definition solver_idle :: solver where
  "solver_idle = solver_pool [(\<lambda>x. 0)]"

text \<open>Widget values with the same mismatch: two patients ready in Step Down, no split entered.\<close>

definition widgets_mismatch :: widgets where
  "widgets_mismatch =
     \<lparr> w_arr = (\<lambda>d. 0), w_arr_ED_walkin = 0, w_arr_ED_ambulance = 0, w_staff_delta = (\<lambda>d. 0),
       w_ready = (\<lambda>d. if d = SD then 2 else 0), w_dest = (\<lambda>d t. 0) \<rparr>"

text \<open>
  A failed call followed by a retry. In the first call two patients of Critical Care are
  routed to Step Down and the quality weight is \<open>-10\<close>, so that the model is unbounded; the
  second call has no card data and the default weights, and its solver run admits two
  transfer requests into Step Down.
\<close>

definition hour_input_transfer :: HourInput where
  "hour_input_transfer =
     \<lparr> external_arrivals = Map.empty, ed_walkin_arrivals = 0, ed_ambulance_arrivals = 0,
       staff_delta = Map.empty, ready_to_exit = [CC \<mapsto> 2],
       destinations = [(CC, Dept SD) \<mapsto> 2] \<rparr>"

definition hour_input_idle :: HourInput where
  "hour_input_idle =
     \<lparr> external_arrivals = Map.empty, ed_walkin_arrivals = 0, ed_ambulance_arrivals = 0,
       staff_delta = Map.empty, ready_to_exit = Map.empty, destinations = Map.empty \<rparr>"

fun requests_values :: valuation where
  "requests_values (Admit_req d) = (if d = SD then 2 else 0)"
| "requests_values x = 0"

definition solver_requests :: solver where
  "solver_requests = solver_pool [requests_values]"

definition state_after_failed_call :: GameState where
  "state_after_failed_call =
     fst (optimize_hour solver_unbounded GameState0 hour_input_transfer (- 10) 300)"

section \<open>Closed forms of the loops\<close>

lemma route_targets_eq:
  "0 \<le> r \<Longrightarrow> route_targets h d ts (ds, r) =
     ((\<lambda>x. (ds x)\<lparr>req_waiting_new := req_waiting_new (ds x)
                      + spec_clip (spec_dest_count h d) r (filter (\<lambda>t. t \<noteq> d) ts) x\<rparr>),
      r - spec_alloc (spec_dest_count h d) r (filter (\<lambda>t. t \<noteq> d) ts))"
proof (induction ts arbitrary: ds r)
  case Nil
  then show ?case by simp
next
  case (Cons t ts)
  show ?case
  proof (cases "t = d")
    case True
    then show ?thesis using Cons by simp
  next
    case False
    let ?a = "min (spec_dest_count h d t) r"
    have a0: "0 \<le> ?a" using Cons.prems by (simp add: spec_dest_count_def)
    have ar: "0 \<le> r - ?a" by simp
    show ?thesis
    proof (cases "r \<le> 0")
      case True
      with Cons.prems have r0: "r = 0" by simp
      have "?a = 0" using r0 by (simp add: spec_dest_count_def)
      then show ?thesis using False r0 Cons.IH[of 0 ds] by (simp add: Let_def)
    next
      case False2: False
      show ?thesis using False False2 Cons.IH[OF ar]
        by (auto simp add: Let_def spec_dest_count_def clamp_non_negative_def fun_eq_iff)
    qed
  qed
qed

lemma spec_alloc_bounds:
  "0 \<le> r \<Longrightarrow> \<forall>t. 0 \<le> c t \<Longrightarrow> 0 \<le> spec_alloc c r ts \<and> spec_alloc c r ts \<le> r"
proof (induction ts arbitrary: r)
  case Nil
  then show ?case by simp
next
  case (Cons t ts)
  have "0 \<le> r - min (c t) r" by simp
  from Cons.IH[OF this Cons.prems(2)] Cons.prems show ?case
    by (simp add: Let_def)
qed

lemma spec_clip_nonneg:
  "0 \<le> r \<Longrightarrow> \<forall>t. 0 \<le> c t \<Longrightarrow> 0 \<le> spec_clip c r ts x"
proof (induction ts arbitrary: r)
  case Nil
  then show ?case by simp
next
  case (Cons t ts)
  have "0 \<le> r - min (c t) r" by simp
  from Cons.IH[OF this Cons.prems(2)] Cons.prems show ?case
    by (simp add: Let_def)
qed

lemma spec_clip_sum:
  "(\<Sum>x\<leftarrow>DEPARTMENTS. spec_clip c r ts x) = spec_alloc c r ts"
proof (induction ts arbitrary: r)
  case Nil
  then show ?case by (simp add: DEPARTMENTS_def)
next
  case (Cons t ts)
  have "(\<Sum>x\<leftarrow>DEPARTMENTS. (if t = x then min (c t) r else 0)) = min (c t) r"
    by (cases t) (simp_all add: DEPARTMENTS_def)
  with Cons.IH[of "r - min (c t) r"] show ?case
    by (simp add: Let_def sum_list_addf)
qed

lemma spec_clip_not_mem: "x \<notin> set ts \<Longrightarrow> spec_clip c r ts x = 0"
  by (induction ts arbitrary: r) (auto simp add: Let_def)

lemma depart_one_eq:
  "depart_one h d (ds, disch) =
     ((\<lambda>x. (ds x)\<lparr>patients := patients (ds x) - (if x = d then spec_actual_departures h d (patients (ds d)) else 0),
                   req_waiting_new := req_waiting_new (ds x) + spec_routed h d (patients (ds d)) x\<rparr>),
      disch(d := spec_discharged h d (patients (ds d))))"
proof -
  let ?p = "patients (ds d)"
  let ?A = "spec_actual_departures h d ?p"
  let ?O = "spec_out_count h d ?p"
  let ?r = "?A - ?O"
  have r0: "0 \<le> ?r" by (simp add: spec_out_count_def)
  have c0: "\<forall>t. 0 \<le> spec_dest_count h d t" by (simp add: spec_dest_count_def)
  have b: "spec_alloc (spec_dest_count h d) ?r (other_departments d) \<le> ?r"
    using spec_alloc_bounds[OF r0 c0] by blast
  have rt: "route_targets h d DEPARTMENTS (ds1, ?r) =
     ((\<lambda>x. (ds1 x)\<lparr>req_waiting_new := req_waiting_new (ds1 x) + spec_routed h d ?p x\<rparr>),
      ?r - spec_alloc (spec_dest_count h d) ?r (other_departments d))" for ds1
    using route_targets_eq[OF r0, of h d DEPARTMENTS ds1]
    by (simp add: spec_routed_def other_departments_def)
  have dis: "spec_discharged h d ?p = ?O + (?r - spec_alloc (spec_dest_count h d) ?r (other_departments d))"
    by (simp add: spec_discharged_def spec_routed_def spec_clip_sum)
  show ?thesis
    unfolding depart_one_def
    apply (simp add: Let_def clamp_non_negative_def rt dis
        spec_actual_departures_def[symmetric] spec_out_count_def[symmetric] del: fun_upd_apply)
    using b apply (auto simp add: fun_eq_iff)
    done
qed

lemma spec_routed_self: "spec_routed h d p d = 0"
  by (simp add: spec_routed_def other_departments_def spec_clip_not_mem)

lemma fold_depart_eq:
  "fold (depart_one h) DEPARTMENTS (ds, disch) =
     ((\<lambda>x. (ds x)\<lparr>patients := patients (ds x) - spec_actual_departures h x (patients (ds x)),
                   req_waiting_new := req_waiting_new (ds x)
                      + (\<Sum>d\<leftarrow>DEPARTMENTS. spec_routed h d (patients (ds d)) x)\<rparr>),
      (\<lambda>d. spec_discharged h d (patients (ds d))))"
  apply (simp add: DEPARTMENTS_def depart_one_eq)
  apply (rule conjI)
   apply (rule ext)
  subgoal for x by (cases x) (simp_all add: spec_routed_self)
  apply (rule ext)
  subgoal for x by (cases x) simp_all
  done

lemma roll_request_age_depts:
  "depts (roll_request_age s) =
     (\<lambda>d. (depts s d)\<lparr>req_waiting_mature :=
                           req_waiting_mature (depts s d) + req_waiting_new (depts s d),
                         req_waiting_new := 0\<rparr>)"
  apply (simp add: roll_request_age_def DEPARTMENTS_def)
  apply (rule ext)
  subgoal for x by (cases x) simp_all
  done

lemma roll_request_age_other [simp]:
  "hour (roll_request_age s) = hour s" "totals (roll_request_age s) = totals s"
  by (simp_all add: roll_request_age_def)

lemma arrivals_and_staff_depts:
  "depts (arrivals_and_staff s h) =
     (\<lambda>d. (depts s d)\<lparr>
        ed_walkin_waiting := ed_walkin_waiting (depts s d)
           + (if d = ED then max 0 (ed_walkin_arrivals h) else 0),
        ed_ambulance_waiting := ed_ambulance_waiting (depts s d)
           + (if d = ED then max 0 (ed_ambulance_arrivals h) else 0),
        ext_waiting := ext_waiting (depts s d)
           + (if d = ED then 0 else max 0 (dict_get (external_arrivals h) d 0)),
        staff := max 0 (staff (depts s d) + dict_get (staff_delta h) d 0)\<rparr>)"
  apply (simp add: arrivals_and_staff_def DEPARTMENTS_def Let_def clamp_non_negative_def)
  apply (rule ext)
  subgoal for x by (cases x) simp_all
  done

lemma arrivals_and_staff_other [simp]:
  "hour (arrivals_and_staff s h) = hour s" "totals (arrivals_and_staff s h) = totals s"
  by (simp_all add: arrivals_and_staff_def)

lemma apply_departures_and_requests_eq:
  "apply_departures_and_requests s h =
     (s\<lparr>depts := (\<lambda>x. (depts s x)\<lparr>
          patients := patients (depts s x) - spec_actual_departures h x (patients (depts s x)),
          req_waiting_new := req_waiting_new (depts s x)
             + (\<Sum>d\<leftarrow>DEPARTMENTS. spec_routed h d (patients (depts s d)) x)\<rparr>)\<rparr>,
      (\<lambda>d. spec_discharged h d (patients (depts s d))))"
  by (simp add: apply_departures_and_requests_def fold_depart_eq)

lemma state_transition_fields:
  "patients (depts (fst (state_transition s h)) d) =
     patients (depts s d) - spec_actual_departures h d (patients (depts s d))"
  "staff (depts (fst (state_transition s h)) d) =
     max 0 (staff (depts s d) + dict_get (staff_delta h) d 0)"
  "ext_waiting (depts (fst (state_transition s h)) d) =
     ext_waiting (depts s d) + (if d = ED then 0 else max 0 (dict_get (external_arrivals h) d 0))"
  "ed_walkin_waiting (depts (fst (state_transition s h)) d) =
     ed_walkin_waiting (depts s d) + (if d = ED then max 0 (ed_walkin_arrivals h) else 0)"
  "ed_ambulance_waiting (depts (fst (state_transition s h)) d) =
     ed_ambulance_waiting (depts s d) + (if d = ED then max 0 (ed_ambulance_arrivals h) else 0)"
  "req_waiting_mature (depts (fst (state_transition s h)) d) =
     req_waiting_mature (depts s d) + req_waiting_new (depts s d)"
  "req_waiting_new (depts (fst (state_transition s h)) d) = created_requests s h d"
  "hour (fst (state_transition s h)) = hour s"
  "totals (fst (state_transition s h)) = totals s"
  "snd (state_transition s h) = (\<lambda>d. spec_discharged h d (patients (depts s d)))"
  by (simp_all add: state_transition_def apply_departures_and_requests_eq created_requests_def
      roll_request_age_depts arrivals_and_staff_depts)

lemma py_round_near: "\<bar>q - of_int z\<bar> < 1 / 2 \<Longrightarrow> py_round q = z"
proof -
  assume a: "\<bar>q - of_int z\<bar> < 1 / 2"
  have "\<lfloor>q\<rfloor> = z \<or> \<lfloor>q\<rfloor> = z - 1" using a by linarith
  then show ?thesis
  proof
    assume f: "\<lfloor>q\<rfloor> = z"
    then have "q - of_int \<lfloor>q\<rfloor> < 1 / 2" using a by linarith
    then show ?thesis using f by (simp add: py_round_def Let_def)
  next
    assume f: "\<lfloor>q\<rfloor> = z - 1"
    have lo: "of_int z - 1 / 2 < q" using a by linarith
    have "(of_int \<lfloor>q\<rfloor> :: rat) = of_int z - 1" using f by simp
    then have "1 / 2 < q - of_int \<lfloor>q\<rfloor>" using lo by linarith
    then show ?thesis using f by (simp add: py_round_def Let_def)
  qed
qed

lemma py_round_of_int [simp]: "py_round (of_int z) = z"
  by (rule py_round_near) simp

lemma near_feasible_rounded:
  assumes "feasible p z" and "\<forall>x. \<bar>v x - of_int (z x)\<bar> < 1 / 2"
  shows "feasible p (rounded v)"
proof -
  have "rounded v = z" using assms(2) by (auto simp add: rounded_def fun_eq_iff intro: py_round_near)
  then show ?thesis using assms(1) by simp
qed

lemma feasible_build_problem:
  "feasible (build_problem s qw fr) z \<longleftrightarrow>
     (\<forall>d. 0 \<le> z (Admit_ext d) \<and> 0 \<le> z (Admit_req d) \<and> 0 \<le> z (Extra_staff d)) \<and>
     0 \<le> z Admit_ed_walkin \<and> 0 \<le> z Admit_ed_ambulance \<and> 0 \<le> z Divert_ed \<and>
     z (Admit_ext ED) = 0 \<and>
     (\<forall>d. d \<noteq> ED \<longrightarrow> z (Admit_ext d) \<le> ext_waiting (depts s d)) \<and>
     (\<forall>d. z (Admit_req d) \<le> req_waiting_mature (depts s d)) \<and>
     z Admit_ed_walkin \<le> ed_walkin_waiting (depts s ED) \<and>
     z Admit_ed_ambulance + z Divert_ed \<le> ed_ambulance_waiting (depts s ED) \<and>
     (\<forall>d. patients (depts s d) + (if d = ED then z Admit_ed_walkin + z Admit_ed_ambulance
                                     else z (Admit_ext d)) + z (Admit_req d) \<le> TOTAL_ROOMS d) \<and>
     (\<forall>d. patients (depts s d) + (if d = ED then z Admit_ed_walkin + z Admit_ed_ambulance
                                     else z (Admit_ext d)) + z (Admit_req d)
            \<le> staff (depts s d) + z (Extra_staff d))"
  (is "?L \<longleftrightarrow> ?R")
proof -
  have all4: "\<And>P. (\<forall>d. P d) \<longleftrightarrow> P ED \<and> P SD \<and> P CC \<and> P SU"
    by (metis dept.exhaust)
  have e1: "\<And>a b. (of_int a \<le> (of_int b :: rat)) = (a \<le> b)" by simp
  have e2: "\<And>a b c. (of_int a + of_int b \<le> (of_int c :: rat)) = (a + b \<le> c)"
    by (metis of_int_add of_int_le_iff)
  have e3: "\<And>a b c d. (of_int a + of_int b + of_int c \<le> (of_int d :: rat)) = (a + b + c \<le> d)"
    by (metis of_int_add of_int_le_iff)
  have e4: "\<And>a b c d e. (of_int a + of_int b + of_int c \<le> (of_int d :: rat) + of_int e) = (a + b + c \<le> d + e)"
    by (metis of_int_add of_int_le_iff)
  have e5: "\<And>a b c d e. (of_int a + of_int b + of_int c + of_int d \<le> (of_int e :: rat)) = (a + b + c + d \<le> e)"
    by (metis of_int_add of_int_le_iff)
  have e6: "\<And>a b c d e f. (of_int a + of_int b + of_int c + of_int d \<le> (of_int e :: rat) + of_int f) = (a + b + c + d \<le> e + f)"
    by (metis of_int_add of_int_le_iff)
  show ?thesis
    unfolding feasible_def build_problem_def all4
    by (simp add: DEPARTMENTS_def patients_end_def ext_admit_term_def e1 e2 e3 e4 e5 e6 add.assoc) linarith
qed

lemma fold_apply_dept_eq:
  "fold (apply_dept v) DEPARTMENTS (ds, decs) =
     ((\<lambda>d. (post_depts ds (rounded v) d)\<lparr>ed_ambulance_waiting :=
                ed_ambulance_waiting (ds d) - (if d = ED then rounded v Admit_ed_ambulance else 0)\<rparr>),
      (\<lambda>d. (post_decisions (rounded v) d)\<lparr>divert_ambulances := None\<rparr>))"
  apply (simp add: DEPARTMENTS_def apply_dept_def Let_def rounded_def)
  apply (rule conjI)
   apply (rule ext)
  subgoal for x by (cases x) (simp_all add: post_depts_def rounded_def)
  apply (rule ext)
  subgoal for x by (cases x) (simp_all add: post_decisions_def rounded_def)
  done

lemma optimize_hour_fail:
  assumes "fst (solve (build_problem (fst (state_transition s h)) qw fr)) \<noteq> LpStatusOptimal"
  shows "optimize_hour solve s h qw fr =
     (fst (state_transition s h),
      Inl (RuntimeError (hour s) (fst (solve (build_problem (fst (state_transition s h)) qw fr)))))"
  using assms
  by (simp add: optimize_hour_def Let_def split_beta state_transition_fields)

lemma optimize_hour_success:
  assumes "fst (solve (build_problem (fst (state_transition s h)) qw fr)) = LpStatusOptimal"
  shows "optimize_hour solve s h qw fr =
     (let s1 = fst (state_transition s h);
          prob = build_problem s1 qw fr;
          v = snd (solve prob);
          z = rounded v;
          t = update_totals (post_depts (depts s1) z) (post_decisions z) (z Divert_ed)
                (snd (state_transition s h)) (totals s)
      in (\<lparr> hour = hour s + 1, depts = post_depts (depts s1) z, totals = t \<rparr>,
          Inr (post_decisions z,
               \<lparr> financial_total = of_int (financial_cost t),
                 quality_total = of_int (quality_penalty t),
                 admitted_this_hour =
                   of_int (\<Sum>d\<leftarrow>DEPARTMENTS. admit_external (post_decisions z d)
                                              + admit_requests (post_decisions z d)),
                 discharged_out_this_hour = of_int (sum_list (map (snd (state_transition s h)) DEPARTMENTS)),
                 objective_value = objective prob v \<rparr>)))"
proof -
  have d: "(\<lambda>d. (post_depts ds (rounded v) d)\<lparr>ed_ambulance_waiting :=
                ed_ambulance_waiting (ds d) - (if d = ED then rounded v Admit_ed_ambulance else 0)\<rparr>)
           (ED := (post_depts ds (rounded v) ED)\<lparr>ed_ambulance_waiting :=
                max 0 (ed_ambulance_waiting (ds ED) - rounded v Admit_ed_ambulance
                         - rounded v Divert_ed)\<rparr>)
         = post_depts ds (rounded v)" for ds v
    apply (rule ext)
    subgoal for x by (cases x) (simp_all add: post_depts_def rounded_def)
    done
  have e: "(\<lambda>d. (post_decisions (rounded v) d)\<lparr>divert_ambulances := None\<rparr>)
           (ED := (post_decisions (rounded v) ED)\<lparr>divert_ambulances := Some (rounded v Divert_ed)\<rparr>)
         = post_decisions (rounded v)" for v
    apply (rule ext)
    subgoal for x by (cases x) (simp_all add: post_decisions_def rounded_def)
    done
  have r: "py_round (v Divert_ed) = rounded v Divert_ed" for v by (simp add: rounded_def)
  obtain s1 disch where st: "state_transition s h = (s1, disch)"
    by (cases "state_transition s h")
  obtain status v where sv: "solve (build_problem s1 qw fr) = (status, v)"
    by (cases "solve (build_problem s1 qw fr)")
  have ok: "status = LpStatusOptimal" using assms st sv by simp
  have hr: "hour s1 = hour s" "totals s1 = totals s"
    using state_transition_fields(8,9)[of s h] st by simp_all
  have eq: "s1\<lparr>depts := post_depts (depts s1) z, totals := t, hour := hour s + 1\<rparr>
            = \<lparr> hour = hour s + 1, depts = post_depts (depts s1) z, totals = t \<rparr>" for z t
    by simp
  show ?thesis
    unfolding optimize_hour_def st
    by (simp add: sv ok Let_def fold_apply_dept_eq d e r hr del: fun_upd_apply)
qed

section \<open>Departures and routing\<close>

text \<open>
  Claim C4. For every state and hour input, the departure step of the source computes what
  the specification describes: each department \<open>d\<close> loses exactly
  \<open>min (max 0 ready_to_exit[d]) patients[d]\<close> patients; its destination entries are
  consumed discharge first and then each other department in the fixed order, each clipped
  to the departures still unallocated; the clipped counts of the other departments are added
  to the target's \<open>req_waiting_new\<close>; the discharge count of \<open>d\<close> is its clipped discharge
  entry plus whatever is left unallocated. Nothing else of the state changes.
\<close>

theorem departure_step_refines_spec:
  "apply_departures_and_requests s h =
     (s\<lparr>depts := (\<lambda>d. (depts s d)\<lparr>
          patients := patients (depts s d) - spec_actual_departures h d (patients (depts s d)),
          req_waiting_new := req_waiting_new (depts s d)
             + (\<Sum>src\<leftarrow>DEPARTMENTS. spec_routed h src (patients (depts s src)) d)\<rparr>)\<rparr>,
      (\<lambda>d. spec_discharged h d (patients (depts s d))))"
  by (rule apply_departures_and_requests_eq)

text \<open>
  Claim C9. No departing patient is lost or counted twice. In the iteration of the loop
  for a department \<open>d\<close>, from any table of departments, the discharge count recorded for
  \<open>d\<close> plus everything added to the \<open>req_waiting_new\<close> queues equals the number of
  patients removed from \<open>d\<close>, which is the minimum of the clamped ready-to-exit count and
  the patients of \<open>d\<close>, and no other department's patients change. Over the whole step,
  the discharges plus the new transfer requests equal the patients removed.
\<close>

theorem departures_conserved:
  "(let (ds', disch') = depart_one h d (ds, disch) in
      disch' d + (\<Sum>t\<leftarrow>DEPARTMENTS. req_waiting_new (ds' t) - req_waiting_new (ds t))
        = patients (ds d) - patients (ds' d)
      \<and> patients (ds d) - patients (ds' d)
        = min (clamp_non_negative (dict_get (ready_to_exit h) d 0)) (patients (ds d))
      \<and> (\<Sum>t\<leftarrow>DEPARTMENTS. patients (ds t) - patients (ds' t)) = patients (ds d) - patients (ds' d))
   \<and> (let (s', out) = apply_departures_and_requests s h in
        (\<Sum>d\<leftarrow>DEPARTMENTS. out d)
          + (\<Sum>t\<leftarrow>DEPARTMENTS. req_waiting_new (depts s' t) - req_waiting_new (depts s t))
        = (\<Sum>d\<leftarrow>DEPARTMENTS. patients (depts s d) - patients (depts s' d)))"
proof -
  have one: "(\<Sum>t\<leftarrow>DEPARTMENTS. (if t = d then (a::int) else 0)) = a" for a
    by (cases d) (simp_all add: DEPARTMENTS_def)
  have step: "(let (ds', disch') = depart_one h d (ds, disch) in
      disch' d + (\<Sum>t\<leftarrow>DEPARTMENTS. req_waiting_new (ds' t) - req_waiting_new (ds t))
        = patients (ds d) - patients (ds' d)
      \<and> patients (ds d) - patients (ds' d)
        = min (clamp_non_negative (dict_get (ready_to_exit h) d 0)) (patients (ds d))
      \<and> (\<Sum>t\<leftarrow>DEPARTMENTS. patients (ds t) - patients (ds' t)) = patients (ds d) - patients (ds' d))"
    by (simp add: depart_one_eq spec_discharged_def one
        spec_actual_departures_def clamp_non_negative_def)
  have call: "(let (s', out) = apply_departures_and_requests s h in
        (\<Sum>d\<leftarrow>DEPARTMENTS. out d)
          + (\<Sum>t\<leftarrow>DEPARTMENTS. req_waiting_new (depts s' t) - req_waiting_new (depts s t))
        = (\<Sum>d\<leftarrow>DEPARTMENTS. patients (depts s d) - patients (depts s' d)))"
    by (simp add: apply_departures_and_requests_eq spec_discharged_def DEPARTMENTS_def)
  show ?thesis using step call by blast
qed

lemma route_targets_cong:
  assumes "\<forall>k. dict_get (destinations h) k 0 = dict_get (destinations h') k 0"
  shows "route_targets h d ts x = route_targets h' d ts x"
proof (induction ts arbitrary: x)
  case Nil
  show ?case by (cases x) simp
next
  case (Cons t ts)
  obtain ds r where x: "x = (ds, r)" by (cases x)
  have e: "dict_get (destinations h) (d, Dept t) 0 = dict_get (destinations h') (d, Dept t) 0"
    using assms by blast
  show ?case unfolding x by (simp add: Let_def e Cons.IH)
qed

lemma state_transition_cong:
  assumes "\<forall>d. dict_get (external_arrivals h) d 0 = dict_get (external_arrivals h') d 0"
    and "\<forall>d. dict_get (staff_delta h) d 0 = dict_get (staff_delta h') d 0"
    and "\<forall>d. dict_get (ready_to_exit h) d 0 = dict_get (ready_to_exit h') d 0"
    and "\<forall>k. dict_get (destinations h) k 0 = dict_get (destinations h') k 0"
    and "ed_walkin_arrivals h = ed_walkin_arrivals h'"
    and "ed_ambulance_arrivals h = ed_ambulance_arrivals h'"
  shows "state_transition s h = state_transition s h'"
proof -
  have d: "depart_one h = depart_one h'"
    by (simp add: depart_one_def fun_eq_iff assms(3,4) route_targets_cong[OF assms(4)])
  have a: "apply_departures_and_requests s1 h = apply_departures_and_requests s1 h'" for s1
    by (simp add: apply_departures_and_requests_def d)
  have b: "arrivals_and_staff s1 h = arrivals_and_staff s1 h'" for s1
  proof -
    have r: "arrivals_and_staff s1 g = s1\<lparr>depts := depts (arrivals_and_staff s1 g)\<rparr>" for g
      by (simp add: arrivals_and_staff_def)
    have "depts (arrivals_and_staff s1 h) = depts (arrivals_and_staff s1 h')"
      by (simp add: arrivals_and_staff_depts assms(1,2,5,6) cong: if_cong)
    then show ?thesis using r[of h] r[of h'] by simp
  qed
  show ?thesis by (simp add: state_transition_def a b)
qed

lemma optimize_hour_cong:
  assumes "state_transition s h = state_transition s h'"
  shows "optimize_hour solve s h qw fr = optimize_hour solve s h' qw fr"
  using assms by (simp add: optimize_hour_def)

text \<open>
  Claim C10. A key that is missing from one of the dictionaries of the hour input
  (\<open>external_arrivals\<close>, \<open>staff_delta\<close>, \<open>ready_to_exit\<close>, \<open>destinations\<close>) is read as 0:
  the call with the key removed and the call with the key present at value 0 give the same
  result, state and outcome alike, and so does the call with every missing key filled in
  with 0. The lookups are \<^verbatim>\<open>dict.get(key, 0)\<close>, which cannot raise, so a missing key adds
  no way for the call to fail.
\<close>

theorem missing_keys_default_to_zero:
  "optimize_hour solve s (h\<lparr>external_arrivals := (external_arrivals h)(d := None)\<rparr>) qw fr
     = optimize_hour solve s (h\<lparr>external_arrivals := (external_arrivals h)(d \<mapsto> 0)\<rparr>) qw fr
   \<and> optimize_hour solve s (h\<lparr>staff_delta := (staff_delta h)(d := None)\<rparr>) qw fr
     = optimize_hour solve s (h\<lparr>staff_delta := (staff_delta h)(d \<mapsto> 0)\<rparr>) qw fr
   \<and> optimize_hour solve s (h\<lparr>ready_to_exit := (ready_to_exit h)(d := None)\<rparr>) qw fr
     = optimize_hour solve s (h\<lparr>ready_to_exit := (ready_to_exit h)(d \<mapsto> 0)\<rparr>) qw fr
   \<and> optimize_hour solve s (h\<lparr>destinations := (destinations h)((d, t) := None)\<rparr>) qw fr
     = optimize_hour solve s (h\<lparr>destinations := (destinations h)((d, t) \<mapsto> 0)\<rparr>) qw fr
   \<and> optimize_hour solve s h qw fr = optimize_hour solve s (with_zero_defaults h) qw fr
   \<and> state_transition s h = state_transition s (with_zero_defaults h)"
proof -
  have 1: "state_transition s (h\<lparr>external_arrivals := (external_arrivals h)(d := None)\<rparr>)
         = state_transition s (h\<lparr>external_arrivals := (external_arrivals h)(d \<mapsto> 0)\<rparr>)"
    by (rule state_transition_cong) (simp_all add: dict_get_def)
  have 2: "state_transition s (h\<lparr>staff_delta := (staff_delta h)(d := None)\<rparr>)
         = state_transition s (h\<lparr>staff_delta := (staff_delta h)(d \<mapsto> 0)\<rparr>)"
    by (rule state_transition_cong) (simp_all add: dict_get_def)
  have 3: "state_transition s (h\<lparr>ready_to_exit := (ready_to_exit h)(d := None)\<rparr>)
         = state_transition s (h\<lparr>ready_to_exit := (ready_to_exit h)(d \<mapsto> 0)\<rparr>)"
    by (rule state_transition_cong) (simp_all add: dict_get_def)
  have 4: "state_transition s (h\<lparr>destinations := (destinations h)((d, t) := None)\<rparr>)
         = state_transition s (h\<lparr>destinations := (destinations h)((d, t) \<mapsto> 0)\<rparr>)"
    by (rule state_transition_cong) (simp_all add: dict_get_def)
  have 5: "state_transition s h = state_transition s (with_zero_defaults h)"
    by (rule state_transition_cong) (simp_all add: dict_get_def with_zero_defaults_def)
  show ?thesis
    using optimize_hour_cong[OF 1] optimize_hour_cong[OF 2] optimize_hour_cong[OF 3]
      optimize_hour_cong[OF 4] optimize_hour_cong[OF 5] 5
    by blast
qed

lemma objective_build_problem:
  "objective (build_problem s qw fr) v =
     (5000 * v Divert_ed
      + 150 * (of_int (ed_walkin_waiting (depts s ED)) - v Admit_ed_walkin
               + (of_int (ed_ambulance_waiting (depts s ED)) - v Admit_ed_ambulance - v Divert_ed)
               + (of_int (req_waiting_mature (depts s ED)) - v (Admit_req ED)
                  + of_int (req_waiting_new (depts s ED))))
      + 40 * v (Extra_staff ED)
      + (\<Sum>d\<leftarrow>[SD, CC, SU]. 3750 * (of_int (ext_waiting (depts s d)) - v (Admit_ext d))
                               + 40 * v (Extra_staff d)))
     + qw * (200 * v Divert_ed
      + 20 * (of_int (ed_walkin_waiting (depts s ED)) - v Admit_ed_walkin
               + (of_int (ed_ambulance_waiting (depts s ED)) - v Admit_ed_ambulance - v Divert_ed)
               + (of_int (req_waiting_mature (depts s ED)) - v (Admit_req ED)
                  + of_int (req_waiting_new (depts s ED))))
      + 5 * v (Extra_staff ED)
      + (\<Sum>d\<leftarrow>[SD, CC, SU]. 20 * (of_int (ext_waiting (depts s d)) - v (Admit_ext d))
                               + 20 * (of_int (req_waiting_mature (depts s d)) - v (Admit_req d)
                                        + of_int (req_waiting_new (depts s d)))
                               + 5 * v (Extra_staff d)))
     - fr * (v Admit_ed_walkin + v Admit_ed_ambulance
             + (\<Sum>d\<leftarrow>[SD, CC, SU]. v (Admit_ext d)) + (\<Sum>d\<leftarrow>[ED, SD, CC, SU]. v (Admit_req d)))"
  by (simp add: build_problem_def financial_def quality_def throughput_def DEPARTMENTS_def
      ext_wait_end_def ed_walkin_wait_end_def ed_ambulance_wait_end_def req_wait_end_def)

lemma negative_quality_weight_unbounded:
  assumes "qw < - 8"
  shows "\<not> is_optimal (build_problem s qw fr) z"
proof
  assume o: "is_optimal (build_problem s qw fr) z"
  let ?z = "z(Extra_staff ED := z (Extra_staff ED) + 1)"
  have f: "feasible (build_problem s qw fr) z" using o by (simp add: is_optimal_def)
  have f': "feasible (build_problem s qw fr) ?z"
    using f unfolding feasible_build_problem
    by (simp split: if_splits) (metis add_increasing2 zero_le_one add.assoc)
  have "objective (build_problem s qw fr) (\<lambda>x. of_int (?z x))
        = objective (build_problem s qw fr) (\<lambda>x. of_int (z x)) + (40 + qw * 5)"
    by (simp add: objective_build_problem algebra_simps)
  moreover have "40 + qw * 5 < 0" using assms by simp
  ultimately have "objective (build_problem s qw fr) (\<lambda>x. of_int (?z x))
        < objective (build_problem s qw fr) (\<lambda>x. of_int (z x))" by simp
  then show False using o f' unfolding is_optimal_def by (meson not_le)
qed

text \<open>
  Claim C1 (the code departs from it). With the initial state, the hour input above and a
  quality weight of \<open>-10\<close> the model is unbounded (extra staff has a negative cost), the solver
  reports a status that is not optimal and the call raises. The state the caller holds
  is not the state it passed in: the three walk-ins are queued and the two Step Down
  patients are gone.
\<close>

theorem failed_solve_leaves_state_advanced:
  "snd (optimize_hour solver_unbounded GameState0 hour_input_walkins (- 10) 300)
     = Inl (RuntimeError 1 LpStatusUnbounded)
   \<and> ed_walkin_waiting
        (depts (fst (optimize_hour solver_unbounded GameState0 hour_input_walkins (- 10) 300)) ED) = 3
   \<and> patients
        (depts (fst (optimize_hour solver_unbounded GameState0 hour_input_walkins (- 10) 300)) SD) = 20
   \<and> ed_walkin_waiting (depts GameState0 ED) = 0
   \<and> patients (depts GameState0 SD) = 22
   \<and> fst (optimize_hour solver_unbounded GameState0 hour_input_walkins (- 10) 300) \<noteq> GameState0"
proof -
  let ?r = "optimize_hour solver_unbounded GameState0 hour_input_walkins (- 10) 300"
  have r: "?r = (fst (state_transition GameState0 hour_input_walkins),
                 Inl (RuntimeError (hour GameState0) LpStatusUnbounded))"
    using optimize_hour_fail[of solver_unbounded GameState0 hour_input_walkins "- 10" 300]
    by (simp add: solver_unbounded_def)
  have w: "ed_walkin_waiting (depts (fst ?r) ED) = 3"
    unfolding r by (simp add: state_transition_fields GameState0_def hour_input_walkins_def)
  have p: "patients (depts (fst ?r) SD) = 20"
    unfolding r by (simp add: state_transition_fields GameState0_def hour_input_walkins_def
        spec_actual_departures_def dict_get_def)
  have w0: "ed_walkin_waiting (depts GameState0 ED) = 0" by (simp add: GameState0_def)
  have p0: "patients (depts GameState0 SD) = 22" by (simp add: GameState0_def)
  have ne: "fst ?r \<noteq> GameState0" using w w0 by auto
  have e: "snd ?r = Inl (RuntimeError 1 LpStatusUnbounded)" unfolding r by (simp add: GameState0_def)
  show ?thesis using e w p w0 p0 ne by blast
qed

lemma optimize_hour_InrD:
  assumes "optimize_hour solve s h qw fr = (s', Inr (decisions, info))"
  shows "fst (solve (build_problem (fst (state_transition s h)) qw fr)) = LpStatusOptimal"
    and "depts s' = post_depts (depts (fst (state_transition s h)))
                      (rounded (snd (solve (build_problem (fst (state_transition s h)) qw fr))))"
    and "decisions = post_decisions
                      (rounded (snd (solve (build_problem (fst (state_transition s h)) qw fr))))"
    and "hour s' = hour s + 1"
    and "totals s' =
           update_totals (depts s') decisions
             (rounded (snd (solve (build_problem (fst (state_transition s h)) qw fr))) Divert_ed)
             (snd (state_transition s h)) (totals s)"
proof -
  show ok: "fst (solve (build_problem (fst (state_transition s h)) qw fr)) = LpStatusOptimal"
  proof (rule ccontr)
    assume "fst (solve (build_problem (fst (state_transition s h)) qw fr)) \<noteq> LpStatusOptimal"
    from optimize_hour_fail[of solve s h qw fr] this assms show False by simp
  qed
  from optimize_hour_success[of solve s h qw fr] ok assms
  show "depts s' = post_depts (depts (fst (state_transition s h)))
                      (rounded (snd (solve (build_problem (fst (state_transition s h)) qw fr))))"
    and d: "decisions = post_decisions
                      (rounded (snd (solve (build_problem (fst (state_transition s h)) qw fr))))"
    and "hour s' = hour s + 1"
    by (auto simp add: Let_def)
  from optimize_hour_success[of solve s h qw fr] ok assms
  show "totals s' =
           update_totals (depts s') decisions
             (rounded (snd (solve (build_problem (fst (state_transition s h)) qw fr))) Divert_ed)
             (snd (state_transition s h)) (totals s)"
    by (auto simp add: Let_def)
qed

lemma optimize_hour_Inr_collapse:
  assumes "fst (solve (build_problem (fst (state_transition s h)) qw fr)) = LpStatusOptimal"
  shows "optimize_hour solve s h qw fr =
     (fst (optimize_hour solve s h qw fr),
      Inr (fst (projr (snd (optimize_hour solve s h qw fr))),
           snd (projr (snd (optimize_hour solve s h qw fr)))))"
  using optimize_hour_success[of solve s h qw fr] assms by (simp add: Let_def)

lemma contract_feasible:
  assumes "solver_contract solve p" and "fst (solve p) = LpStatusOptimal"
  shows "feasible p (rounded (snd (solve p)))"
  using assms by (simp add: solver_contract_def)

section \<open>Successful calls\<close>

text \<open>
  Claim C2. After a successful call, under the contract of the solver (the values it
  reports with status optimal round to a feasible point of the model it was given), every
  department of the committed state has \<open>patients \<le> TOTAL_ROOMS\<close> and
  \<open>patients \<le> staff\<close>, where the staff is the staff after the hour's shock plus the extra
  staff called this hour.
\<close>

theorem committed_state_within_capacity_and_staff:
  assumes "optimize_hour solve s h qw fr = (s', Inr (decisions, info))"
    and "solver_contract solve (build_problem (fst (state_transition s h)) qw fr)"
  shows "patients (depts s' d) \<le> TOTAL_ROOMS d
       \<and> patients (depts s' d) \<le> staff (depts s' d)
       \<and> staff (depts s' d)
           = staff (depts (fst (state_transition s h)) d) + call_extra_staff (decisions d)"
proof -
  let ?p = "build_problem (fst (state_transition s h)) qw fr"
  let ?z = "rounded (snd (solve ?p))"
  note D = optimize_hour_InrD[OF assms(1)]
  have f: "feasible ?p ?z" using contract_feasible[of solve ?p] assms(2) D(1) by simp
  have rooms: "patients (depts (fst (state_transition s h)) d)
          + (if d = ED then ?z Admit_ed_walkin + ?z Admit_ed_ambulance else ?z (Admit_ext d))
          + ?z (Admit_req d) \<le> TOTAL_ROOMS d"
    using f unfolding feasible_build_problem by blast
  have st: "patients (depts (fst (state_transition s h)) d)
          + (if d = ED then ?z Admit_ed_walkin + ?z Admit_ed_ambulance else ?z (Admit_ext d))
          + ?z (Admit_req d) \<le> staff (depts (fst (state_transition s h)) d) + ?z (Extra_staff d)"
    using f unfolding feasible_build_problem by blast
  show ?thesis
    using rooms st by (simp add: D(2,3) post_depts_def post_decisions_def)
qed

lemma all_dept: "(\<forall>d. P d) \<longleftrightarrow> P ED \<and> P SD \<and> P CC \<and> P SU"
  by (metis dept.exhaust)

lemma rounded_example_values:
  "rounded example_values Admit_ed_walkin = 3"
  "rounded example_values Admit_ed_ambulance = 5"
  "rounded example_values Divert_ed = 1"
  "rounded example_values (Admit_ext d) = (if d = SD then 9 else 0)"
  "rounded example_values (Admit_req d) = (if d = SD then 1 else 0)"
  "rounded example_values (Extra_staff d) = (if d = ED then 6 else if d = SD then 6 else 0)"
  by (auto simp add: rounded_def intro!: py_round_near)

lemma example_transition:
  "patients (depts (fst (state_transition state_example hour_input_busy)) d)
     = (case d of ED \<Rightarrow> 16 | SD \<Rightarrow> 20 | CC \<Rightarrow> 9 | SU \<Rightarrow> 4)"
  "staff (depts (fst (state_transition state_example hour_input_busy)) d)
     = (case d of ED \<Rightarrow> 18 | SD \<Rightarrow> 24 | CC \<Rightarrow> 12 | SU \<Rightarrow> 6)"
  "ext_waiting (depts (fst (state_transition state_example hour_input_busy)) d)
     = (case d of SD \<Rightarrow> 10 | _ \<Rightarrow> 0)"
  "ed_walkin_waiting (depts (fst (state_transition state_example hour_input_busy)) d)
     = (case d of ED \<Rightarrow> 3 | _ \<Rightarrow> 0)"
  "ed_ambulance_waiting (depts (fst (state_transition state_example hour_input_busy)) d)
     = (case d of ED \<Rightarrow> 6 | _ \<Rightarrow> 0)"
  "req_waiting_mature (depts (fst (state_transition state_example hour_input_busy)) d)
     = (case d of SD \<Rightarrow> 1 | _ \<Rightarrow> 0)"
  "req_waiting_new (depts (fst (state_transition state_example hour_input_busy)) d)
     = (case d of SD \<Rightarrow> 2 | _ \<Rightarrow> 0)"
  by (cases d; simp add: state_transition_fields state_example_def GameState0_def
      hour_input_busy_def spec_actual_departures_def spec_out_count_def spec_routed_def
      spec_dest_count_def created_requests_def other_departments_def DEPARTMENTS_def
      dict_get_def Let_def)+

lemma example_contract:
  "solver_contract solver_example
     (build_problem (fst (state_transition state_example hour_input_busy)) 1 300)"
  unfolding solver_contract_def feasible_build_problem all_dept
  by (simp add: solver_example_def rounded_example_values example_transition)

lemma example_succeeds:
  "fst (solver_example (build_problem (fst (state_transition state_example hour_input_busy)) 1 300))
     = LpStatusOptimal"
  by (simp add: solver_example_def)

theorem committed_state_within_capacity_and_staff_witness:
  "solver_contract solver_example
     (build_problem (fst (state_transition state_example hour_input_busy)) 1 300)
   \<and> patients (depts (fst (optimize_hour solver_example state_example hour_input_busy 1 300)) SD)
       \<le> TOTAL_ROOMS SD
   \<and> patients (depts (fst (optimize_hour solver_example state_example hour_input_busy 1 300)) SD)
       \<le> staff (depts (fst (optimize_hour solver_example state_example hour_input_busy 1 300)) SD)
   \<and> staff (depts (fst (optimize_hour solver_example state_example hour_input_busy 1 300)) SD)
       = staff (depts (fst (state_transition state_example hour_input_busy)) SD)
         + call_extra_staff
             (fst (projr (snd (optimize_hour solver_example state_example hour_input_busy 1 300))) SD)"
  using committed_state_within_capacity_and_staff[
      OF optimize_hour_Inr_collapse[of solver_example state_example hour_input_busy 1 300,
           OF example_succeeds] example_contract, of SD]
    example_contract
  by simp

text \<open>
  Claim C8. In a successful call the walk-in queue of the Emergency department changes by
  the clamped walk-in arrivals and the walk-ins admitted, and by nothing else; the
  diversion is taken from the ambulance queue only, which changes by the clamped ambulance
  arrivals, the ambulance arrivals admitted and the diversions. Under the contract of the
  solver the admitted ambulance arrivals and the diversions together do not exceed the
  ambulance arrivals waiting when the model is built. No other department's walk-in or
  ambulance queue changes.
\<close>

theorem diversion_only_from_ambulance_queue:
  assumes "optimize_hour solve s h qw fr = (s', Inr (decisions, info))"
    and "solver_contract solve (build_problem (fst (state_transition s h)) qw fr)"
  shows "\<exists>w a dv.
           admit_walkins (decisions ED) = Some w \<and> admit_ambulance (decisions ED) = Some a
         \<and> divert_ambulances (decisions ED) = Some dv
         \<and> ed_walkin_waiting (depts s' ED)
             = ed_walkin_waiting (depts s ED) + clamp_non_negative (ed_walkin_arrivals h) - w
         \<and> ed_ambulance_waiting (depts s' ED)
             = ed_ambulance_waiting (depts s ED) + clamp_non_negative (ed_ambulance_arrivals h)
               - a - dv
         \<and> 0 \<le> a \<and> 0 \<le> dv \<and> 0 \<le> w
         \<and> a + dv \<le> ed_ambulance_waiting (depts (fst (state_transition s h)) ED)
         \<and> w \<le> ed_walkin_waiting (depts (fst (state_transition s h)) ED)
         \<and> ed_walkin_waiting (depts s' d)
             = (if d = ED then ed_walkin_waiting (depts s' ED) else ed_walkin_waiting (depts s d))
         \<and> ed_ambulance_waiting (depts s' d)
             = (if d = ED then ed_ambulance_waiting (depts s' ED)
                else ed_ambulance_waiting (depts s d))"
proof -
  let ?p = "build_problem (fst (state_transition s h)) qw fr"
  let ?z = "rounded (snd (solve ?p))"
  note D = optimize_hour_InrD[OF assms(1)]
  have f: "feasible ?p ?z" using contract_feasible[of solve ?p] assms(2) D(1) by simp
  have b: "0 \<le> ?z Admit_ed_walkin" "0 \<le> ?z Admit_ed_ambulance" "0 \<le> ?z Divert_ed"
    "?z Admit_ed_walkin \<le> ed_walkin_waiting (depts (fst (state_transition s h)) ED)"
    "?z Admit_ed_ambulance + ?z Divert_ed
       \<le> ed_ambulance_waiting (depts (fst (state_transition s h)) ED)"
    using f unfolding feasible_build_problem by blast+
  show ?thesis
    using b
    by (simp add: D(2,3) post_depts_def post_decisions_def state_transition_fields
        clamp_non_negative_def)
qed

theorem diversion_only_from_ambulance_queue_witness:
  "solver_contract solver_example
     (build_problem (fst (state_transition state_example hour_input_busy)) 1 300)
   \<and> admit_ambulance
        (fst (projr (snd (optimize_hour solver_example state_example hour_input_busy 1 300))) ED)
       = Some 5
   \<and> divert_ambulances
        (fst (projr (snd (optimize_hour solver_example state_example hour_input_busy 1 300))) ED)
       = Some 1
   \<and> ed_walkin_waiting
        (depts (fst (optimize_hour solver_example state_example hour_input_busy 1 300)) ED) = 0
   \<and> ed_ambulance_waiting
        (depts (fst (optimize_hour solver_example state_example hour_input_busy 1 300)) ED) = 0"
proof -
  let ?X = "optimize_hour solver_example state_example hour_input_busy 1 300"
  note E = optimize_hour_Inr_collapse[of solver_example state_example hour_input_busy 1 300,
      OF example_succeeds]
  note D = optimize_hour_InrD[OF E]
  have dec: "admit_walkins (fst (projr (snd ?X)) ED) = Some 3"
    "admit_ambulance (fst (projr (snd ?X)) ED) = Some 5"
    "divert_ambulances (fst (projr (snd ?X)) ED) = Some 1"
    unfolding D(3)
    by (simp_all add: post_decisions_def solver_example_def rounded_example_values)
  have q: "ed_walkin_waiting (depts state_example ED) = 0"
    "ed_ambulance_waiting (depts state_example ED) = 0"
    "ed_walkin_arrivals hour_input_busy = 3" "ed_ambulance_arrivals hour_input_busy = 6"
    by (simp_all add: state_example_def GameState0_def hour_input_busy_def)
  show ?thesis
    using diversion_only_from_ambulance_queue[OF E example_contract, of ED] dec q example_contract
    by (auto simp add: clamp_non_negative_def)
qed

text \<open>
  Along successful calls the aging rule holds. Request aging empties \<open>req_waiting_new\<close> into \<open>req_waiting_mature\<close> at the start
  of a call, and nothing later in the call adds to the mature queue: the mature queue the
  model is built on is the one right after aging, whatever the hour input routes, so the
  requests created during the call (they are all of \<open>req_waiting_new\<close> when the model is
  built) are not in it. Under the contract of the solver the requests admitted are at most
  that mature queue. At the end of a successful call the created requests are still in
  \<open>req_waiting_new\<close>, and the aging at the start of the next call, one hour later, moves
  them into \<open>req_waiting_mature\<close>.
\<close>

theorem new_requests_mature_one_hour_later:
  assumes "optimize_hour solve s h qw fr = (s', Inr (decisions, info))"
    and "solver_contract solve (build_problem (fst (state_transition s h)) qw fr)"
  shows "req_waiting_new (depts (roll_request_age s) d) = 0
       \<and> req_waiting_mature (depts (roll_request_age s) d)
           = req_waiting_mature (depts s d) + req_waiting_new (depts s d)
       \<and> req_waiting_mature (depts (fst (state_transition s h)) d)
           = req_waiting_mature (depts (roll_request_age s) d)
       \<and> 0 \<le> admit_requests (decisions d)
       \<and> admit_requests (decisions d) \<le> req_waiting_mature (depts (roll_request_age s) d)
       \<and> req_waiting_mature (depts s' d)
           = req_waiting_mature (depts (roll_request_age s) d) - admit_requests (decisions d)
       \<and> req_waiting_new (depts s' d) = req_waiting_new (depts (fst (state_transition s h)) d)
       \<and> hour s' = hour s + 1
       \<and> req_waiting_mature (depts (fst (state_transition s' h')) d)
           = req_waiting_mature (depts s' d) + req_waiting_new (depts (fst (state_transition s h)) d)"
proof -
  let ?p = "build_problem (fst (state_transition s h)) qw fr"
  let ?z = "rounded (snd (solve ?p))"
  note D = optimize_hour_InrD[OF assms(1)]
  have f: "feasible ?p ?z" using contract_feasible[of solve ?p] assms(2) D(1) by simp
  have b: "0 \<le> ?z (Admit_req d)"
    "?z (Admit_req d) \<le> req_waiting_mature (depts (fst (state_transition s h)) d)"
    using f unfolding feasible_build_problem by blast+
  have n: "req_waiting_new (depts s' d) = req_waiting_new (depts (fst (state_transition s h)) d)"
    "req_waiting_mature (depts s' d)
       = req_waiting_mature (depts (fst (state_transition s h)) d) - ?z (Admit_req d)"
    by (simp_all add: D(2) post_depts_def)
  show ?thesis
    using b n
    by (simp add: D(3,4) post_decisions_def state_transition_fields roll_request_age_depts)
qed

theorem new_requests_mature_one_hour_later_witness:
  "solver_contract solver_example
     (build_problem (fst (state_transition state_example hour_input_busy)) 1 300)
   \<and> req_waiting_new (depts state_example SD) = 1
   \<and> req_waiting_mature (depts (fst (state_transition state_example hour_input_busy)) SD) = 1
   \<and> req_waiting_new (depts (fst (state_transition state_example hour_input_busy)) SD) = 2
   \<and> req_waiting_mature
        (depts (fst (optimize_hour solver_example state_example hour_input_busy 1 300)) SD) = 0
   \<and> req_waiting_new
        (depts (fst (optimize_hour solver_example state_example hour_input_busy 1 300)) SD) = 2
   \<and> req_waiting_mature
        (depts (fst (state_transition
           (fst (optimize_hour solver_example state_example hour_input_busy 1 300))
           hour_input_walkins)) SD) = 2"
proof -
  let ?X = "optimize_hour solver_example state_example hour_input_busy 1 300"
  note E = optimize_hour_Inr_collapse[of solver_example state_example hour_input_busy 1 300,
      OF example_succeeds]
  note D = optimize_hour_InrD[OF E]
  have dec: "admit_requests (fst (projr (snd ?X)) SD) = 1"
    unfolding D(3)
    by (simp add: post_decisions_def solver_example_def rounded_example_values)
  have q: "req_waiting_new (depts state_example SD) = 1"
    "req_waiting_mature (depts state_example SD) = 0"
    by (simp_all add: state_example_def GameState0_def)
  show ?thesis
    using new_requests_mature_one_hour_later[OF E example_contract, of SD hour_input_walkins]
      dec q example_contract
    by (simp add: example_transition roll_request_age_depts)
qed

lemma update_totals_fields:
  "ed_diversions (update_totals ds dec ed_div disch t) = ed_diversions t + ed_div"
  "ed_waiting (update_totals ds dec ed_div disch t)
     = ed_waiting t + (ed_walkin_waiting (ds ED) + ed_ambulance_waiting (ds ED)
                        + req_waiting_mature (ds ED))"
  "ed_extra_staff (update_totals ds dec ed_div disch t)
     = ed_extra_staff t + call_extra_staff (dec ED)"
  "dep_arrivals_waiting (update_totals ds dec ed_div disch t) d
     = dep_arrivals_waiting t d + (if d = ED then 0 else ext_waiting (ds d))"
  "dep_requests_waiting (update_totals ds dec ed_div disch t) d
     = dep_requests_waiting t d
       + (if d = ED then 0 else req_waiting_mature (ds d) + req_waiting_new (ds d))"
  "dep_extra_staff (update_totals ds dec ed_div disch t) d
     = dep_extra_staff t d + (if d = ED then 0 else call_extra_staff (dec d))"
  by (cases d; simp add: update_totals_def Let_def)+

lemma financial_cost_eq:
  "financial_cost t =
     ed_diversions t * 5000 + ed_waiting t * 150 + ed_extra_staff t * 40
     + (dep_arrivals_waiting t SD * 3750 + dep_extra_staff t SD * 40)
     + (dep_arrivals_waiting t CC * 3750 + dep_extra_staff t CC * 40)
     + (dep_arrivals_waiting t SU * 3750 + dep_extra_staff t SU * 40)"
  by (simp add: financial_cost_def)

lemma quality_penalty_eq:
  "quality_penalty t =
     ed_diversions t * 200 + ed_waiting t * 20 + ed_extra_staff t * 5
     + (dep_arrivals_waiting t SD * 20 + dep_requests_waiting t SD * 20 + dep_extra_staff t SD * 5)
     + (dep_arrivals_waiting t CC * 20 + dep_requests_waiting t CC * 20 + dep_extra_staff t CC * 5)
     + (dep_arrivals_waiting t SU * 20 + dep_requests_waiting t SU * 20 + dep_extra_staff t SU * 5)"
  by (simp add: quality_penalty_def)

lemma created_requests_nonneg: "0 \<le> created_requests s h d"
proof -
  have "0 \<le> spec_routed h src p d" for src p
    unfolding spec_routed_def
    by (rule spec_clip_nonneg) (simp_all add: spec_out_count_def spec_dest_count_def)
  then show ?thesis
    by (simp add: created_requests_def DEPARTMENTS_def)
qed

lemma totals_step:
  assumes "optimize_hour solve s h qw fr = (s', Inr (decisions, info))"
    and "solver_contract solve (build_problem (fst (state_transition s h)) qw fr)"
  shows "ed_diversions (totals s) \<le> ed_diversions (totals s')"
    and "ed_waiting (totals s) \<le> ed_waiting (totals s')"
    and "ed_extra_staff (totals s) \<le> ed_extra_staff (totals s')"
    and "dep_arrivals_waiting (totals s) d \<le> dep_arrivals_waiting (totals s') d"
    and "dep_requests_waiting (totals s) d \<le> dep_requests_waiting (totals s') d"
    and "dep_extra_staff (totals s) d \<le> dep_extra_staff (totals s') d"
proof -
  let ?s1 = "fst (state_transition s h)"
  let ?p = "build_problem ?s1 qw fr"
  let ?z = "rounded (snd (solve ?p))"
  note D = optimize_hour_InrD[OF assms(1)]
  have f: "feasible ?p ?z" using contract_feasible[of solve ?p] assms(2) D(1) by simp
  have b: "0 \<le> ?z Divert_ed" "0 \<le> ?z (Extra_staff e)"
    "?z Admit_ed_walkin \<le> ed_walkin_waiting (depts ?s1 ED)"
    "?z (Admit_req e) \<le> req_waiting_mature (depts ?s1 e)"
    "e \<noteq> ED \<Longrightarrow> ?z (Admit_ext e) \<le> ext_waiting (depts ?s1 e)" for e
    using f unfolding feasible_build_problem by blast+
  have n: "0 \<le> req_waiting_new (depts ?s1 e)" for e
    by (simp add: state_transition_fields created_requests_nonneg)
  show "ed_diversions (totals s) \<le> ed_diversions (totals s')"
    using b(1) by (simp add: D(5) update_totals_fields)
  show "ed_waiting (totals s) \<le> ed_waiting (totals s')"
    using b(3) b(4)[of ED] by (simp add: D(5) update_totals_fields D(2) post_depts_def)
  show "ed_extra_staff (totals s) \<le> ed_extra_staff (totals s')"
    using b(2)[of ED] by (simp add: D(5) update_totals_fields D(3) post_decisions_def)
  show "dep_arrivals_waiting (totals s) d \<le> dep_arrivals_waiting (totals s') d"
    using b(5)[of d] by (simp add: D(5) update_totals_fields D(2) post_depts_def)
  show "dep_requests_waiting (totals s) d \<le> dep_requests_waiting (totals s') d"
    using b(4)[of d] n[of d] by (simp add: D(5) update_totals_fields D(2) post_depts_def)
  show "dep_extra_staff (totals s) d \<le> dep_extra_staff (totals s') d"
    using b(2)[of d] by (simp add: D(5) update_totals_fields D(3) post_decisions_def)
qed

lemma costs_step:
  assumes "optimize_hour solve s h qw fr = (s', Inr (decisions, info))"
    and "solver_contract solve (build_problem (fst (state_transition s h)) qw fr)"
  shows "financial_cost (totals s) \<le> financial_cost (totals s')"
    and "quality_penalty (totals s) \<le> quality_penalty (totals s')"
proof -
  note T = totals_step[OF assms]
  show "financial_cost (totals s) \<le> financial_cost (totals s')"
    unfolding financial_cost_eq
    using T(1,2,3) T(4)[of SD] T(4)[of CC] T(4)[of SU] T(6)[of SD] T(6)[of CC] T(6)[of SU]
    by linarith
  show "quality_penalty (totals s) \<le> quality_penalty (totals s')"
    unfolding quality_penalty_eq
    using T(1,2,3) T(4)[of SD] T(4)[of CC] T(4)[of SU] T(5)[of SD] T(5)[of CC] T(5)[of SU]
      T(6)[of SD] T(6)[of CC] T(6)[of SU]
    by linarith
qed

lemma play_sorted:
  fixes f :: "GameState \<Rightarrow> int"
  assumes step: "\<And>s h qw fr s' decisions info.
      optimize_hour solve s h qw fr = (s', Inr (decisions, info)) \<Longrightarrow> f s \<le> f s'"
    and "play solve s inputs = Some trace"
  shows "sorted (map f (s # trace))"
  using assms(2)
proof (induction inputs arbitrary: s trace)
  case Nil
  then show ?case by simp
next
  case (Cons i rest)
  obtain h qw fr where i: "i = (h, qw, fr)" by (cases i)
  obtain s' out where o: "optimize_hour solve s h qw fr = (s', out)"
    by (cases "optimize_hour solve s h qw fr")
  show ?case
  proof (cases out)
    case (Inl e)
    with Cons.prems i o show ?thesis by simp
  next
    case (Inr r)
    obtain decisions info where r: "r = (decisions, info)" by (cases r)
    from Cons.prems i o Inr obtain trace' where
      t: "play solve s' rest = Some trace'" "trace = s' # trace'"
      by auto
    have le: "f s \<le> f s'" using step[of s h qw fr s' decisions info] o Inr r by simp
    have "sorted (map f (s' # trace'))" using Cons.IH[OF t(1)] .
    with le show ?thesis unfolding t(2) by auto
  qed
qed

lemma solver_pool_contract: "solver_contract (solver_pool vs) p"
  by (induction vs) (simp_all add: solver_contract_def)

lemma solver_pool_first:
  "feasible p (rounded v) \<Longrightarrow> solver_pool (v # vs) p = (LpStatusOptimal, v)"
  by simp

lemma solver_pool_second:
  "\<not> feasible p (rounded v) \<Longrightarrow> feasible p (rounded w)
     \<Longrightarrow> solver_pool (v # w # vs) p = (LpStatusOptimal, w)"
  by simp

lemma cost_tables_nonneg: "0 \<le> dict_get (FINANCIAL d) k 0 \<and> 0 \<le> dict_get (QUALITY d) k 0"
  by (cases d; cases k; simp add: dict_get_def)

text \<open>
  Claim C7. Along every sequence of successful calls, with a solver that keeps its contract,
  the cumulative financial cost and the cumulative quality penalty never decrease from one
  hour to the next, and neither does any of the counters they are computed from; every
  entry of the two unit-cost tables is non-negative.
\<close>

theorem cumulative_costs_never_decrease:
  assumes "\<forall>p. solver_contract solve p"
    and "play solve s inputs = Some trace"
  shows "sorted (map (\<lambda>s. financial_cost (totals s)) (s # trace))
       \<and> sorted (map (\<lambda>s. quality_penalty (totals s)) (s # trace))
       \<and> sorted (map (\<lambda>s. ed_diversions (totals s)) (s # trace))
       \<and> sorted (map (\<lambda>s. ed_waiting (totals s)) (s # trace))
       \<and> sorted (map (\<lambda>s. ed_extra_staff (totals s)) (s # trace))
       \<and> sorted (map (\<lambda>s. dep_arrivals_waiting (totals s) d) (s # trace))
       \<and> sorted (map (\<lambda>s. dep_requests_waiting (totals s) d) (s # trace))
       \<and> sorted (map (\<lambda>s. dep_extra_staff (totals s) d) (s # trace))
       \<and> 0 \<le> dict_get (FINANCIAL d) k 0 \<and> 0 \<le> dict_get (QUALITY d) k 0"
proof -
  have c: "solver_contract solve p" for p using assms(1) by blast
  note P = play_sorted[where solve = solve, OF _ assms(2)]
  have 1: "sorted (map (\<lambda>s. financial_cost (totals s)) (s # trace))"
    by (rule P) (rule costs_step(1)[OF _ c])
  have 2: "sorted (map (\<lambda>s. quality_penalty (totals s)) (s # trace))"
    by (rule P) (rule costs_step(2)[OF _ c])
  have 3: "sorted (map (\<lambda>s. ed_diversions (totals s)) (s # trace))"
    by (rule P) (rule totals_step(1)[OF _ c])
  have 4: "sorted (map (\<lambda>s. ed_waiting (totals s)) (s # trace))"
    by (rule P) (rule totals_step(2)[OF _ c])
  have 5: "sorted (map (\<lambda>s. ed_extra_staff (totals s)) (s # trace))"
    by (rule P) (rule totals_step(3)[OF _ c])
  have 6: "sorted (map (\<lambda>s. dep_arrivals_waiting (totals s) d) (s # trace))"
    by (rule P) (rule totals_step(4)[OF _ c])
  have 7: "sorted (map (\<lambda>s. dep_requests_waiting (totals s) d) (s # trace))"
    by (rule P) (rule totals_step(5)[OF _ c])
  have 8: "sorted (map (\<lambda>s. dep_extra_staff (totals s) d) (s # trace))"
    by (rule P) (rule totals_step(6)[OF _ c])
  show ?thesis using 1 2 3 4 5 6 7 8 cost_tables_nonneg[of d k] by blast
qed

lemma example_feasible:
  "feasible (build_problem (fst (state_transition state_example hour_input_busy)) 1 300)
     (rounded example_values)"
  using example_contract by (simp add: solver_contract_def solver_example_def)

lemma two_first_call:
  "solver_two (build_problem (fst (state_transition state_example hour_input_busy)) 1 300)
     = (LpStatusOptimal, example_values)"
  unfolding solver_two_def by (rule solver_pool_first) (rule example_feasible)

lemma rounded_zero [simp]: "rounded (\<lambda>x. 0) = (\<lambda>x. 0)"
  by (auto simp add: rounded_def fun_eq_iff intro!: py_round_near)

lemma two_first_state:
  "patients (depts (fst (optimize_hour solver_two state_example hour_input_busy 1 300)) d)
     = (case d of ED \<Rightarrow> 24 | SD \<Rightarrow> 30 | CC \<Rightarrow> 9 | SU \<Rightarrow> 4)"
  "staff (depts (fst (optimize_hour solver_two state_example hour_input_busy 1 300)) d)
     = (case d of ED \<Rightarrow> 24 | SD \<Rightarrow> 30 | CC \<Rightarrow> 12 | SU \<Rightarrow> 6)"
  "ext_waiting (depts (fst (optimize_hour solver_two state_example hour_input_busy 1 300)) d)
     = (case d of SD \<Rightarrow> 1 | _ \<Rightarrow> 0)"
  "ed_walkin_waiting (depts (fst (optimize_hour solver_two state_example hour_input_busy 1 300)) d) = 0"
  "ed_ambulance_waiting (depts (fst (optimize_hour solver_two state_example hour_input_busy 1 300)) d) = 0"
  "req_waiting_mature (depts (fst (optimize_hour solver_two state_example hour_input_busy 1 300)) d) = 0"
  "req_waiting_new (depts (fst (optimize_hour solver_two state_example hour_input_busy 1 300)) d)
     = (case d of SD \<Rightarrow> 2 | _ \<Rightarrow> 0)"
proof -
  note E = optimize_hour_Inr_collapse[of solver_two state_example hour_input_busy 1 300]
  have ok: "fst (solver_two (build_problem (fst (state_transition state_example hour_input_busy)) 1 300))
      = LpStatusOptimal" by (simp add: two_first_call)
  note D = optimize_hour_InrD[OF E[OF ok]]
  show "patients (depts (fst (optimize_hour solver_two state_example hour_input_busy 1 300)) d)
     = (case d of ED \<Rightarrow> 24 | SD \<Rightarrow> 30 | CC \<Rightarrow> 9 | SU \<Rightarrow> 4)"
  "staff (depts (fst (optimize_hour solver_two state_example hour_input_busy 1 300)) d)
     = (case d of ED \<Rightarrow> 24 | SD \<Rightarrow> 30 | CC \<Rightarrow> 12 | SU \<Rightarrow> 6)"
  "ext_waiting (depts (fst (optimize_hour solver_two state_example hour_input_busy 1 300)) d)
     = (case d of SD \<Rightarrow> 1 | _ \<Rightarrow> 0)"
  "ed_walkin_waiting (depts (fst (optimize_hour solver_two state_example hour_input_busy 1 300)) d) = 0"
  "ed_ambulance_waiting (depts (fst (optimize_hour solver_two state_example hour_input_busy 1 300)) d) = 0"
  "req_waiting_mature (depts (fst (optimize_hour solver_two state_example hour_input_busy 1 300)) d) = 0"
  "req_waiting_new (depts (fst (optimize_hour solver_two state_example hour_input_busy 1 300)) d)
     = (case d of SD \<Rightarrow> 2 | _ \<Rightarrow> 0)"
    unfolding D(2)
    by (cases d; simp add: post_depts_def two_first_call rounded_example_values example_transition)+
qed

lemma solver_two_status:
  "feasible p (rounded (\<lambda>x. 0)) \<Longrightarrow> fst (solver_two p) = LpStatusOptimal"
  by (simp add: solver_two_def)

lemma two_second_call:
  "fst (solver_two (build_problem
          (fst (state_transition (fst (optimize_hour solver_two state_example hour_input_busy 1 300))
                  hour_input_walkins)) 1 300))
     = LpStatusOptimal"
proof -
  let ?p = "build_problem
          (fst (state_transition (fst (optimize_hour solver_two state_example hour_input_busy 1 300))
                  hour_input_walkins)) 1 300"
  have z: "feasible ?p (rounded (\<lambda>x. 0))"
    unfolding feasible_build_problem all_dept
    by (simp add: state_transition_fields two_first_state hour_input_walkins_def
        spec_actual_departures_def dict_get_def)
  show ?thesis by (rule solver_two_status) (rule z)
qed

lemma play_two:
  "play solver_two state_example inputs_two =
     Some [fst (optimize_hour solver_two state_example hour_input_busy 1 300),
           fst (optimize_hour solver_two
                  (fst (optimize_hour solver_two state_example hour_input_busy 1 300))
                  hour_input_walkins 1 300)]"
proof -
  have ok: "fst (solver_two (build_problem (fst (state_transition state_example hour_input_busy)) 1 300))
      = LpStatusOptimal" by (simp add: two_first_call)
  note E1 = optimize_hour_Inr_collapse[of solver_two state_example hour_input_busy 1 300, OF ok]
  note E2 = optimize_hour_Inr_collapse[of solver_two
      "fst (optimize_hour solver_two state_example hour_input_busy 1 300)" hour_input_walkins 1 300,
      OF two_second_call]
  show ?thesis
    unfolding inputs_two_def
    apply (simp only: play.simps)
    apply (subst E1)
    apply (simp only: prod.case sum.case)
    apply (subst E2)
    apply (simp only: prod.case sum.case option.map)
    done
qed

lemma two_first_costs:
  "financial_cost (totals state_example) = 0"
  "quality_penalty (totals state_example) = 0"
  "financial_cost (totals (fst (optimize_hour solver_two state_example hour_input_busy 1 300))) = 9230"
  "quality_penalty (totals (fst (optimize_hour solver_two state_example hour_input_busy 1 300))) = 320"
proof -
  note E = optimize_hour_Inr_collapse[of solver_two state_example hour_input_busy 1 300]
  have ok: "fst (solver_two (build_problem (fst (state_transition state_example hour_input_busy)) 1 300))
      = LpStatusOptimal" by (simp add: two_first_call)
  note D = optimize_hour_InrD[OF E[OF ok]]
  have t0: "totals state_example = Totals0" by (simp add: state_example_def GameState0_def)
  show "financial_cost (totals state_example) = 0" "quality_penalty (totals state_example) = 0"
    by (simp_all add: t0 Totals0_def financial_cost_eq quality_penalty_eq)
  show "financial_cost (totals (fst (optimize_hour solver_two state_example hour_input_busy 1 300))) = 9230"
    unfolding financial_cost_eq D(5) update_totals_fields
    by (simp add: two_first_state D(3) post_decisions_def two_first_call rounded_example_values
        t0 Totals0_def)
  show "quality_penalty (totals (fst (optimize_hour solver_two state_example hour_input_busy 1 300))) = 320"
    unfolding quality_penalty_eq D(5) update_totals_fields
    by (simp add: two_first_state D(3) post_decisions_def two_first_call rounded_example_values
        t0 Totals0_def)
qed

theorem cumulative_costs_never_decrease_witness:
  "(\<forall>p. solver_contract solver_two p)
   \<and> play solver_two state_example inputs_two \<noteq> None
   \<and> financial_cost (totals state_example) = 0
   \<and> financial_cost (totals (hd (the (play solver_two state_example inputs_two)))) = 9230
   \<and> quality_penalty (totals (hd (the (play solver_two state_example inputs_two)))) = 320
   \<and> sorted (map (\<lambda>s. financial_cost (totals s))
        (state_example # the (play solver_two state_example inputs_two)))
   \<and> sorted (map (\<lambda>s. quality_penalty (totals s))
        (state_example # the (play solver_two state_example inputs_two)))"
proof -
  have c: "\<forall>p. solver_contract solver_two p"
    by (simp add: solver_two_def solver_pool_contract)
  have p: "play solver_two state_example inputs_two
             = Some (the (play solver_two state_example inputs_two))"
    by (simp add: play_two)
  show ?thesis
    using cumulative_costs_never_decrease[OF c p, of SD K_waiting] c p two_first_costs
    by (auto simp add: play_two)
qed

lemma objective_default:
  "objective (build_problem s 1 300) (\<lambda>x. of_int (z x)) =
     of_int (5200 * z Divert_ed
      + 170 * (ed_walkin_waiting (depts s ED) - z Admit_ed_walkin
               + (ed_ambulance_waiting (depts s ED) - z Admit_ed_ambulance - z Divert_ed)
               + (req_waiting_mature (depts s ED) - z (Admit_req ED)
                  + req_waiting_new (depts s ED)))
      + 45 * z (Extra_staff ED)
      + (\<Sum>d\<leftarrow>[SD, CC, SU]. 3770 * (ext_waiting (depts s d) - z (Admit_ext d))
                               + 20 * (req_waiting_mature (depts s d) - z (Admit_req d)
                                        + req_waiting_new (depts s d))
                               + 45 * z (Extra_staff d))
      - 300 * (z Admit_ed_walkin + z Admit_ed_ambulance
             + (\<Sum>d\<leftarrow>[SD, CC, SU]. z (Admit_ext d)) + (\<Sum>d\<leftarrow>[ED, SD, CC, SU]. z (Admit_req d))))"
  by (simp add: objective_build_problem)

lemma is_optimalD:
  "is_optimal p z \<Longrightarrow> feasible p z"
  "is_optimal p z \<Longrightarrow> feasible p z'
     \<Longrightarrow> objective p (\<lambda>x. of_int (z x)) \<le> objective p (\<lambda>x. of_int (z' x))"
  by (simp_all add: is_optimal_def)

lemma staff_bound_exchange:
  assumes E: "ext_waiting (depts s SD) = 10"
    and R: "patients (depts s SD) + 10 \<le> TOTAL_ROOMS SD"
    and f: "feasible (build_problem s 1 300) z"
    and a: "z (Admit_ext SD) < 10"
  shows "\<exists>z'. feasible (build_problem s 1 300) z'
           \<and> objective (build_problem s 1 300) (\<lambda>x. of_int (z' x))
               < objective (build_problem s 1 300) (\<lambda>x. of_int (z x))"
proof (cases "patients (depts s SD) + z (Admit_ext SD) + z (Admit_req SD) < TOTAL_ROOMS SD")
  case True
  let ?z = "z(Admit_ext SD := z (Admit_ext SD) + 1, Extra_staff SD := z (Extra_staff SD) + 1)"
  have "feasible (build_problem s 1 300) ?z"
    using f E a True unfolding feasible_build_problem all_dept by simp
  moreover have "objective (build_problem s 1 300) (\<lambda>x. of_int (?z x))
               < objective (build_problem s 1 300) (\<lambda>x. of_int (z x))"
    unfolding objective_default of_int_less_iff by simp
  ultimately show ?thesis by blast
next
  case False
  let ?z = "z(Admit_ext SD := z (Admit_ext SD) + 1, Admit_req SD := z (Admit_req SD) - 1)"
  have pos: "0 < z (Admit_req SD)" using False R a by simp
  have "feasible (build_problem s 1 300) ?z"
    using f E a pos unfolding feasible_build_problem all_dept by simp
  moreover have "objective (build_problem s 1 300) (\<lambda>x. of_int (?z x))
               < objective (build_problem s 1 300) (\<lambda>x. of_int (z x))"
    unfolding objective_default of_int_less_iff by simp
  ultimately show ?thesis by blast
qed

text \<open>
  Claim C5, as amended. If Step Down has ten arrivals waiting, staff for two more patients
  and room for all ten, then under the default weights every optimal solution of the hour's
  program admits all ten and calls at least eight extra staff for Step Down: an extra
  member of staff costs 40 + 5, an arrival left waiting costs 3750 + 20 and forgoes the
  flow reward of 300. No arrival of Step Down stays queued.
\<close>

theorem staff_bound_optimum_admits_all:
  assumes "ext_waiting (depts s SD) = 10"
    and "staff (depts s SD) = patients (depts s SD) + 2"
    and "patients (depts s SD) + 10 \<le> TOTAL_ROOMS SD"
    and "is_optimal (build_problem s 1 300) z"
  shows "z (Admit_ext SD) = 10 \<and> 8 \<le> z (Extra_staff SD)"
proof -
  have f: "feasible (build_problem s 1 300) z" using assms(4) by (rule is_optimalD(1))
  have le: "z (Admit_ext SD) \<le> 10"
    using f assms(1) unfolding feasible_build_problem all_dept by simp
  have "\<not> z (Admit_ext SD) < 10"
  proof
    assume "z (Admit_ext SD) < 10"
    from staff_bound_exchange[OF assms(1) assms(3) f this] obtain z' where
      "feasible (build_problem s 1 300) z'"
      "objective (build_problem s 1 300) (\<lambda>x. of_int (z' x))
         < objective (build_problem s 1 300) (\<lambda>x. of_int (z x))" by blast
    with is_optimalD(2)[OF assms(4)] show False by force
  qed
  with le have a: "z (Admit_ext SD) = 10" by simp
  have "8 \<le> z (Extra_staff SD)"
    using f a assms(2) unfolding feasible_build_problem all_dept by simp
  with a show ?thesis by simp
qed

lemma staff_bound_state:
  "patients (depts (fst (state_transition GameState0 hour_input_staff_bound)) d)
     = (case d of ED \<Rightarrow> 16 | SD \<Rightarrow> 18 | CC \<Rightarrow> 12 | SU \<Rightarrow> 4)"
  "staff (depts (fst (state_transition GameState0 hour_input_staff_bound)) d)
     = (case d of ED \<Rightarrow> 18 | SD \<Rightarrow> 20 | CC \<Rightarrow> 13 | SU \<Rightarrow> 6)"
  "ext_waiting (depts (fst (state_transition GameState0 hour_input_staff_bound)) d)
     = (case d of SD \<Rightarrow> 10 | _ \<Rightarrow> 0)"
  "ed_walkin_waiting (depts (fst (state_transition GameState0 hour_input_staff_bound)) d) = 0"
  "ed_ambulance_waiting (depts (fst (state_transition GameState0 hour_input_staff_bound)) d) = 0"
  "req_waiting_mature (depts (fst (state_transition GameState0 hour_input_staff_bound)) d) = 0"
  "req_waiting_new (depts (fst (state_transition GameState0 hour_input_staff_bound)) d) = 0"
  by (cases d; simp add: state_transition_fields GameState0_def
      hour_input_staff_bound_def spec_actual_departures_def spec_out_count_def spec_routed_def
      spec_dest_count_def created_requests_def other_departments_def DEPARTMENTS_def
      dict_get_def Let_def)+

lemma admit_all_feasible: "feasible problem_staff_bound admit_all"
  unfolding problem_staff_bound_def feasible_build_problem all_dept
  by (simp add: staff_bound_state)

lemma admit_two_feasible: "feasible problem_staff_bound admit_two"
  unfolding problem_staff_bound_def feasible_build_problem all_dept
  by (simp add: staff_bound_state)

lemma admit_all_optimal: "is_optimal problem_staff_bound admit_all"
  unfolding is_optimal_def
proof (intro conjI allI impI)
  show "feasible problem_staff_bound admit_all" by (rule admit_all_feasible)
next
  fix z'
  assume "feasible problem_staff_bound z'"
  then show "objective problem_staff_bound (\<lambda>x. of_int (admit_all x))
        \<le> objective problem_staff_bound (\<lambda>x. of_int (z' x))"
    unfolding problem_staff_bound_def feasible_build_problem all_dept objective_default
      of_int_le_iff
    by (simp add: staff_bound_state)
qed

lemma admit_two_not_optimal: "\<not> is_optimal problem_staff_bound admit_two"
proof
  assume "is_optimal problem_staff_bound admit_two"
  from is_optimalD(2)[OF this admit_all_feasible] show False
    unfolding problem_staff_bound_def objective_default of_int_le_iff
    by (simp add: staff_bound_state)
qed

theorem staff_bound_admits_two_counterexample:
  "ext_waiting (depts (fst (state_transition GameState0 hour_input_staff_bound)) SD) = 10
   \<and> staff (depts (fst (state_transition GameState0 hour_input_staff_bound)) SD)
       = patients (depts (fst (state_transition GameState0 hour_input_staff_bound)) SD) + 2
   \<and> patients (depts (fst (state_transition GameState0 hour_input_staff_bound)) SD) + 10
       \<le> TOTAL_ROOMS SD
   \<and> is_optimal problem_staff_bound admit_all
   \<and> admit_all (Admit_ext SD) = 10
   \<and> admit_all (Extra_staff SD) = 8
   \<and> feasible problem_staff_bound admit_two
   \<and> admit_two (Admit_ext SD) = 2
   \<and> \<not> is_optimal problem_staff_bound admit_two"
  using admit_all_optimal admit_two_feasible admit_two_not_optimal
  by (simp add: staff_bound_state)

theorem staff_bound_optimum_admits_all_witness:
  "is_optimal (build_problem (fst (state_transition GameState0 hour_input_staff_bound)) 1 300)
     admit_all
   \<and> admit_all (Admit_ext SD) = 10 \<and> 8 \<le> admit_all (Extra_staff SD)"
proof -
  have o: "is_optimal (build_problem (fst (state_transition GameState0 hour_input_staff_bound)) 1 300)
     admit_all"
    using admit_all_optimal by (simp add: problem_staff_bound_def)
  have 1: "ext_waiting (depts (fst (state_transition GameState0 hour_input_staff_bound)) SD) = 10"
    by (simp add: staff_bound_state)
  have 2: "staff (depts (fst (state_transition GameState0 hour_input_staff_bound)) SD)
       = patients (depts (fst (state_transition GameState0 hour_input_staff_bound)) SD) + 2"
    by (simp add: staff_bound_state)
  have 3: "patients (depts (fst (state_transition GameState0 hour_input_staff_bound)) SD) + 10
       \<le> TOTAL_ROOMS SD"
    by (simp add: staff_bound_state)
  show ?thesis
    using staff_bound_optimum_admits_all[OF 1 2 3 o] o by blast
qed

lemma collect_dept_eq:
  "collect_dept w d (errors, dm) =
     (errors @ (if 0 < w_ready w d \<and> sum_list (map (w_dest w d) (split_targets d)) \<noteq> w_ready w d
                then [SplitMismatch d (sum_list (map (w_dest w d) (split_targets d))) (w_ready w d)]
                else []),
      if 0 < w_ready w d
      then fold (\<lambda>t m. m((d, t) \<mapsto> w_dest w d t)) (split_targets d) dm
      else dm)"
  by (simp add: collect_dept_def Let_def)

lemma collect_errors:
  "fst (fold (collect_dept w) DEPARTMENTS ([], Map.empty)) =
     concat (map (\<lambda>d. if 0 < w_ready w d
                          \<and> sum_list (map (w_dest w d) (split_targets d)) \<noteq> w_ready w d
                       then [SplitMismatch d (sum_list (map (w_dest w d) (split_targets d)))
                               (w_ready w d)]
                       else []) DEPARTMENTS)"
  by (simp add: DEPARTMENTS_def collect_dept_eq)

text \<open>
  Claim C6, as amended. When some department has a positive ready-to-exit count and a
  destination split whose total differs from it, the input collector reports a validation
  error naming that department and returns no hour input; the application then does not
  call \<^verbatim>\<open>optimize_hour\<close>, and the state is left as it was. (The core does not reject such an
  hour input: it clips the split.)
\<close>

theorem split_mismatch_rejected_by_collector:
  assumes "0 < w_ready w d"
    and "sum_list (map (w_dest w d) (split_targets d)) \<noteq> w_ready w d"
  shows "fst (collect_hour_input w) = None
       \<and> SplitMismatch d (sum_list (map (w_dest w d) (split_targets d))) (w_ready w d)
           \<in> set (snd (collect_hour_input w))
       \<and> optimize_pressed solve state w qw fr = (state, snd (collect_hour_input w), None)"
proof -
  let ?e = "fst (fold (collect_dept w) DEPARTMENTS ([], Map.empty))"
  have m: "SplitMismatch d (sum_list (map (w_dest w d) (split_targets d))) (w_ready w d) \<in> set ?e"
    unfolding collect_errors using assms by (cases d) (simp_all add: DEPARTMENTS_def)
  then have ne: "?e \<noteq> []" by auto
  have c: "collect_hour_input w = (None, ?e)"
    using ne by (simp add: collect_hour_input_def split_beta)
  show ?thesis using m by (simp add: c optimize_pressed_def)
qed

theorem split_mismatch_rejected_by_collector_witness:
  "0 < w_ready widgets_mismatch SD
   \<and> sum_list (map (w_dest widgets_mismatch SD) (split_targets SD)) = 0
   \<and> w_ready widgets_mismatch SD = 2
   \<and> collect_hour_input widgets_mismatch = (None, [SplitMismatch SD 0 2])
   \<and> optimize_pressed solver_idle GameState0 widgets_mismatch 1 300
       = (GameState0, [SplitMismatch SD 0 2], None)"
proof -
  have 1: "0 < w_ready widgets_mismatch SD" by (simp add: widgets_mismatch_def)
  have s: "sum_list (map (w_dest widgets_mismatch SD) (split_targets SD)) = 0"
    by (simp add: widgets_mismatch_def split_targets_def DEPARTMENTS_def)
  have 2: "sum_list (map (w_dest widgets_mismatch SD) (split_targets SD)) \<noteq> w_ready widgets_mismatch SD"
    by (simp add: s) (simp add: widgets_mismatch_def)
  have er: "fst (fold (collect_dept widgets_mismatch) DEPARTMENTS ([], Map.empty))
              = [SplitMismatch SD 0 2]"
    unfolding collect_errors by (simp add: DEPARTMENTS_def s) (simp add: widgets_mismatch_def)
  have e: "snd (collect_hour_input widgets_mismatch) = [SplitMismatch SD 0 2]"
    by (simp add: collect_hour_input_def split_beta er)
  show ?thesis
    using split_mismatch_rejected_by_collector[OF 1 2, of solver_idle GameState0 1 300] 1 s e
    by (simp add: prod_eq_iff widgets_mismatch_def)
qed

lemma update_totals_discharged:
  "discharged_out (update_totals ds dec ed_div disch t)
     = discharged_out t + sum_list (map disch DEPARTMENTS)"
  "throughput_admitted (update_totals ds dec ed_div disch t)
     = throughput_admitted t
       + (\<Sum>d\<leftarrow>DEPARTMENTS. admit_external (dec d) + admit_requests (dec d))"
  by (simp_all add: update_totals_def Let_def)

lemma mismatch_state:
  "patients (depts (fst (state_transition GameState0 hour_input_mismatch)) d)
     = (case d of ED \<Rightarrow> 16 | SD \<Rightarrow> 20 | CC \<Rightarrow> 12 | SU \<Rightarrow> 4)"
  "staff (depts (fst (state_transition GameState0 hour_input_mismatch)) d)
     = (case d of ED \<Rightarrow> 18 | SD \<Rightarrow> 24 | CC \<Rightarrow> 13 | SU \<Rightarrow> 6)"
  "ext_waiting (depts (fst (state_transition GameState0 hour_input_mismatch)) d) = 0"
  "ed_walkin_waiting (depts (fst (state_transition GameState0 hour_input_mismatch)) d) = 0"
  "ed_ambulance_waiting (depts (fst (state_transition GameState0 hour_input_mismatch)) d) = 0"
  "req_waiting_mature (depts (fst (state_transition GameState0 hour_input_mismatch)) d) = 0"
  "req_waiting_new (depts (fst (state_transition GameState0 hour_input_mismatch)) d) = 0"
  "snd (state_transition GameState0 hour_input_mismatch) d = (case d of SD \<Rightarrow> 2 | _ \<Rightarrow> 0)"
  by (cases d; simp add: state_transition_fields GameState0_def
      hour_input_mismatch_def spec_actual_departures_def spec_out_count_def spec_routed_def
      spec_discharged_def spec_dest_count_def created_requests_def other_departments_def
      DEPARTMENTS_def dict_get_def Let_def)+

lemma mismatch_succeeds:
  "solver_idle (build_problem (fst (state_transition GameState0 hour_input_mismatch)) 1 300)
     = (LpStatusOptimal, (\<lambda>x. 0))"
proof -
  have "feasible (build_problem (fst (state_transition GameState0 hour_input_mismatch)) 1 300)
          (rounded (\<lambda>x. 0))"
    unfolding feasible_build_problem all_dept by (simp add: mismatch_state)
  then show ?thesis unfolding solver_idle_def by (rule solver_pool_first)
qed

theorem core_accepts_split_mismatch_counterexample:
  "dict_get (ready_to_exit hour_input_mismatch) SD 0 = 2
   \<and> (\<Sum>t\<leftarrow>split_targets SD. dict_get (destinations hour_input_mismatch) (SD, t) 0) = 0
   \<and> \<not> isl (snd (optimize_hour solver_idle GameState0 hour_input_mismatch 1 300))
   \<and> patients (depts GameState0 SD) = 22
   \<and> patients (depts (fst (optimize_hour solver_idle GameState0 hour_input_mismatch 1 300)) SD) = 20
   \<and> discharged_out (totals GameState0) = 0
   \<and> discharged_out (totals (fst (optimize_hour solver_idle GameState0 hour_input_mismatch 1 300))) = 2
   \<and> hour (fst (optimize_hour solver_idle GameState0 hour_input_mismatch 1 300)) = 2"
proof -
  let ?X = "optimize_hour solver_idle GameState0 hour_input_mismatch 1 300"
  have ok: "fst (solver_idle (build_problem (fst (state_transition GameState0 hour_input_mismatch)) 1 300))
      = LpStatusOptimal" by (simp add: mismatch_succeeds)
  note E = optimize_hour_Inr_collapse[of solver_idle GameState0 hour_input_mismatch 1 300, OF ok]
  note D = optimize_hour_InrD[OF E]
  have a: "dict_get (ready_to_exit hour_input_mismatch) SD 0 = 2"
    "(\<Sum>t\<leftarrow>split_targets SD. dict_get (destinations hour_input_mismatch) (SD, t) 0) = 0"
    by (simp_all add: hour_input_mismatch_def dict_get_def split_targets_def DEPARTMENTS_def)
  have b: "\<not> isl (snd ?X)" by (subst E) simp
  have c: "patients (depts GameState0 SD) = 22" "discharged_out (totals GameState0) = 0"
    by (simp_all add: GameState0_def Totals0_def)
  have p: "patients (depts (fst ?X) SD) = 20"
    unfolding D(2) by (simp add: post_depts_def mismatch_succeeds mismatch_state)
  have t: "discharged_out (totals (fst ?X)) = 2"
    unfolding D(5) update_totals_discharged
    by (simp add: mismatch_state DEPARTMENTS_def c(2))
  have h: "hour (fst ?X) = 2" unfolding D(4) by (simp add: GameState0_def)
  show ?thesis using a b c p t h by blast
qed

lemma failed_call_result:
  "optimize_hour solver_unbounded GameState0 hour_input_transfer (- 10) 300
     = (fst (state_transition GameState0 hour_input_transfer),
        Inl (RuntimeError 1 LpStatusUnbounded))"
  using optimize_hour_fail[of solver_unbounded GameState0 hour_input_transfer "- 10" 300]
  by (simp add: solver_unbounded_def) (simp add: GameState0_def)

lemma failed_call_state:
  "patients (depts state_after_failed_call d)
     = (case d of ED \<Rightarrow> 16 | SD \<Rightarrow> 22 | CC \<Rightarrow> 10 | SU \<Rightarrow> 4)"
  "staff (depts state_after_failed_call d)
     = (case d of ED \<Rightarrow> 18 | SD \<Rightarrow> 24 | CC \<Rightarrow> 13 | SU \<Rightarrow> 6)"
  "ext_waiting (depts state_after_failed_call d) = 0"
  "ed_walkin_waiting (depts state_after_failed_call d) = 0"
  "ed_ambulance_waiting (depts state_after_failed_call d) = 0"
  "req_waiting_mature (depts state_after_failed_call d) = 0"
  "req_waiting_new (depts state_after_failed_call d) = (case d of SD \<Rightarrow> 2 | _ \<Rightarrow> 0)"
  "hour state_after_failed_call = 1"
  unfolding state_after_failed_call_def failed_call_result fst_conv
  by (cases d; simp add: state_transition_fields GameState0_def
      hour_input_transfer_def spec_actual_departures_def spec_out_count_def spec_routed_def
      spec_dest_count_def created_requests_def other_departments_def DEPARTMENTS_def
      dict_get_def Let_def)+

lemma retry_state:
  "patients (depts (fst (state_transition state_after_failed_call hour_input_idle)) d)
     = (case d of ED \<Rightarrow> 16 | SD \<Rightarrow> 22 | CC \<Rightarrow> 10 | SU \<Rightarrow> 4)"
  "staff (depts (fst (state_transition state_after_failed_call hour_input_idle)) d)
     = (case d of ED \<Rightarrow> 18 | SD \<Rightarrow> 24 | CC \<Rightarrow> 13 | SU \<Rightarrow> 6)"
  "ext_waiting (depts (fst (state_transition state_after_failed_call hour_input_idle)) d) = 0"
  "ed_walkin_waiting (depts (fst (state_transition state_after_failed_call hour_input_idle)) d) = 0"
  "ed_ambulance_waiting (depts (fst (state_transition state_after_failed_call hour_input_idle)) d) = 0"
  "req_waiting_mature (depts (fst (state_transition state_after_failed_call hour_input_idle)) d)
     = (case d of SD \<Rightarrow> 2 | _ \<Rightarrow> 0)"
  "req_waiting_new (depts (fst (state_transition state_after_failed_call hour_input_idle)) d) = 0"
  by (cases d; simp add: state_transition_fields failed_call_state
      hour_input_idle_def spec_actual_departures_def spec_out_count_def spec_routed_def
      spec_dest_count_def created_requests_def other_departments_def DEPARTMENTS_def
      dict_get_def Let_def)+

lemma rounded_requests_values:
  "rounded requests_values (Admit_req d) = (if d = SD then 2 else 0)"
  "rounded requests_values (Admit_ext d) = 0"
  "rounded requests_values (Extra_staff d) = 0"
  "rounded requests_values Admit_ed_walkin = 0"
  "rounded requests_values Admit_ed_ambulance = 0"
  "rounded requests_values Divert_ed = 0"
  by (auto simp add: rounded_def intro!: py_round_near)

lemma retry_feasible:
  "feasible (build_problem (fst (state_transition state_after_failed_call hour_input_idle)) 1 300)
     (rounded requests_values)"
  unfolding feasible_build_problem all_dept
  by (simp add: retry_state rounded_requests_values)

lemma retry_call:
  "solver_requests (build_problem (fst (state_transition state_after_failed_call hour_input_idle)) 1 300)
     = (LpStatusOptimal, requests_values)"
  unfolding solver_requests_def by (rule solver_pool_first) (rule retry_feasible)

lemma retry_optimal:
  "is_optimal (build_problem (fst (state_transition state_after_failed_call hour_input_idle)) 1 300)
     (rounded requests_values)"
  unfolding is_optimal_def
proof (intro conjI allI impI)
  show "feasible (build_problem (fst (state_transition state_after_failed_call hour_input_idle)) 1 300)
     (rounded requests_values)" by (rule retry_feasible)
next
  fix z'
  assume "feasible (build_problem (fst (state_transition state_after_failed_call hour_input_idle)) 1 300) z'"
  then show "objective (build_problem (fst (state_transition state_after_failed_call hour_input_idle)) 1 300)
          (\<lambda>x. of_int (rounded requests_values x))
        \<le> objective (build_problem (fst (state_transition state_after_failed_call hour_input_idle)) 1 300)
          (\<lambda>x. of_int (z' x))"
    unfolding feasible_build_problem all_dept objective_default of_int_le_iff
    by (simp add: retry_state rounded_requests_values)
qed

text \<open>
  Claim C3 (the code departs from it). From the initial state, a call at hour 1 routes two
  patients of Critical Care to Step Down and then raises, because the model is unbounded.
  The two requests it created stay in \<open>req_waiting_new\<close> of Step Down and the hour is still
  1. The next call, still the call for hour 1, ages them into \<open>req_waiting_mature\<close> and
  admits both: requests created during hour 1 are mature and admitted during hour 1.
\<close>

theorem failed_call_requests_mature_same_hour:
  "snd (optimize_hour solver_unbounded GameState0 hour_input_transfer (- 10) 300)
     = Inl (RuntimeError 1 LpStatusUnbounded)
   \<and> hour GameState0 = 1
   \<and> req_waiting_new (depts GameState0 SD) = 0
   \<and> req_waiting_mature (depts GameState0 SD) = 0
   \<and> hour state_after_failed_call = 1
   \<and> req_waiting_new (depts state_after_failed_call SD) = 2
   \<and> req_waiting_mature (depts (fst (state_transition state_after_failed_call hour_input_idle)) SD) = 2
   \<and> \<not> isl (snd (optimize_hour solver_requests state_after_failed_call hour_input_idle 1 300))
   \<and> admit_requests
        (fst (projr (snd (optimize_hour solver_requests state_after_failed_call hour_input_idle 1 300)))
           SD) = 2
   \<and> patients
        (depts (fst (optimize_hour solver_requests state_after_failed_call hour_input_idle 1 300)) SD)
       = 24
   \<and> hour (fst (optimize_hour solver_requests state_after_failed_call hour_input_idle 1 300)) = 2"
proof -
  let ?Y = "optimize_hour solver_requests state_after_failed_call hour_input_idle 1 300"
  have ok: "fst (solver_requests
              (build_problem (fst (state_transition state_after_failed_call hour_input_idle)) 1 300))
            = LpStatusOptimal" by (simp add: retry_call)
  note E = optimize_hour_Inr_collapse[of solver_requests state_after_failed_call hour_input_idle 1 300,
      OF ok]
  note D = optimize_hour_InrD[OF E]
  have a: "snd (optimize_hour solver_unbounded GameState0 hour_input_transfer (- 10) 300)
     = Inl (RuntimeError 1 LpStatusUnbounded)" by (simp add: failed_call_result)
  have b: "hour GameState0 = 1" "req_waiting_new (depts GameState0 SD) = 0"
    "req_waiting_mature (depts GameState0 SD) = 0"
    by (simp_all add: GameState0_def)
  have c: "hour state_after_failed_call = 1" "req_waiting_new (depts state_after_failed_call SD) = 2"
    by (simp_all add: failed_call_state)
  have d: "req_waiting_mature (depts (fst (state_transition state_after_failed_call hour_input_idle)) SD) = 2"
    by (simp add: retry_state)
  have e: "\<not> isl (snd ?Y)" by (subst E) simp
  have f: "admit_requests (fst (projr (snd ?Y)) SD) = 2"
    unfolding D(3) by (simp add: post_decisions_def retry_call rounded_requests_values)
  have g: "patients (depts (fst ?Y) SD) = 24"
    unfolding D(2) by (simp add: post_depts_def retry_call rounded_requests_values retry_state)
  have h: "hour (fst ?Y) = 2" unfolding D(4) by (simp add: failed_call_state)
  show ?thesis using a b c d e f g h by blast
qed

end
